theory Spec2Isabelle
  imports Complex_Main "HOL-Library.Word"
begin

section \<open>Python values and exceptions\<close>

text \<open>
  The two front ends (\<^verbatim>\<open>NPBKBO.py\<close>, the console program, and \<^verbatim>\<open>app.py\<close>, the form)
  pass team statistics around as Python dictionaries and scores as floats or \<^verbatim>\<open>None\<close>.
  Python floats are read as real numbers: rounding, infinities and NaN are outside this
  development. An exception is a value of \<open>exn\<close>; a computation that may raise returns
  \<open>exn + 'a\<close>, with \<open>Inl\<close> the exception.
\<close>

datatype exn = KeyError | TypeError | ValueError | ZeroDivisionError

datatype pyval = Num real | Str string | NoneVal | Dict "(string \<times> pyval) list"

definition exn_bind :: "exn + 'a \<Rightarrow> ('a \<Rightarrow> exn + 'b) \<Rightarrow> exn + 'b" where
  "exn_bind m f = (case m of Inl e \<Rightarrow> Inl e | Inr x \<Rightarrow> f x)"

text \<open>\<^verbatim>\<open>d[k]\<close>: a missing key raises KeyError, a value that is no dictionary TypeError.\<close>

fun getitem :: "pyval \<Rightarrow> string \<Rightarrow> exn + pyval" where
  "getitem (Dict kvs) k = (case map_of kvs k of None \<Rightarrow> Inl KeyError | Some v \<Rightarrow> Inr v)"
| "getitem (Num x) k = Inl TypeError"
| "getitem (Str s) k = Inl TypeError"
| "getitem NoneVal k = Inl TypeError"

text \<open>
  Every arithmetic operation and comparison of the scoring code has a float operand, so a
  string, \<^verbatim>\<open>None\<close> or a dictionary in the other place raises TypeError.
\<close>

fun as_float :: "pyval \<Rightarrow> exn + real" where
  "as_float (Num x) = Inr x"
| "as_float (Str s) = Inl TypeError"
| "as_float NoneVal = Inl TypeError"
| "as_float (Dict kvs) = Inl TypeError"

definition get_float :: "pyval \<Rightarrow> string \<Rightarrow> exn + real" where
  "get_float d k = exn_bind (getitem d k) as_float"

definition py_div :: "real \<Rightarrow> real \<Rightarrow> exn + real" where
  "py_div a b = (if b = 0 then Inl ZeroDivisionError else Inr (a / b))"

section \<open>Team statistics\<close>

text \<open>
  \<^verbatim>\<open>input_team_data\<close> (NPBKBO.py, lines 40 to 53) builds the dictionary of one team from
  the values entered; \<open>team_stat\<close> holds those values, the over rate already divided by
  100. The form builds the same dictionary without the \<^verbatim>\<open>time_period\<close> key
  (app.py, lines 23 to 48).
\<close>

record pitcher_stat =
  era :: real
  baa :: real

record team_stat =
  name :: string
  time_period :: string
  time_avg :: real
  base_avg :: real
  allow :: real
  over_rate :: real
  team_batting :: real
  team_obp :: real
  pitcher :: pitcher_stat

definition pitcher_dict :: "pitcher_stat \<Rightarrow> pyval" where
  "pitcher_dict p = Dict [(''era'', Num (era p)), (''baa'', Num (baa p))]"

definition team_dict :: "team_stat \<Rightarrow> pyval" where
  "team_dict t = Dict
     [(''name'', Str (name t)),
      (''time_period'', Str (time_period t)),
      (''time_avg'', Num (time_avg t)),
      (''base_avg'', Num (base_avg t)),
      (''allow'', Num (allow t)),
      (''over_rate'', Num (over_rate t)),
      (''team_batting'', Num (team_batting t)),
      (''team_obp'', Num (team_obp t)),
      (''pitcher'', pitcher_dict (pitcher t))]"

definition form_dict :: "team_stat \<Rightarrow> pyval" where
  "form_dict t = Dict
     [(''name'', Str (name t)),
      (''time_avg'', Num (time_avg t)),
      (''base_avg'', Num (base_avg t)),
      (''allow'', Num (allow t)),
      (''over_rate'', Num (over_rate t)),
      (''team_batting'', Num (team_batting t)),
      (''team_obp'', Num (team_obp t)),
      (''pitcher'', pitcher_dict (pitcher t))]"

text \<open>
  The ranges that \<^verbatim>\<open>safe_input\<close> (\<^verbatim>\<open>min_val\<close>, \<^verbatim>\<open>max_val\<close>) and the form widgets
  (\<^verbatim>\<open>min_value\<close>, \<^verbatim>\<open>max_value\<close>) enforce on the values entered.
\<close>

definition valid_team :: "team_stat \<Rightarrow> bool" where
  "valid_team t =
     (0 \<le> time_avg t \<and> 0 \<le> base_avg t \<and> 0 \<le> allow t \<and>
      0 \<le> over_rate t \<and> over_rate t \<le> 1 \<and>
      0 \<le> team_batting t \<and> team_batting t \<le> 1 \<and>
      0 \<le> team_obp t \<and> team_obp t \<le> 1 \<and>
      0 \<le> era (pitcher t) \<and>
      0 \<le> baa (pitcher t) \<and> baa (pitcher t) \<le> 1)"

section \<open>Score estimation\<close>

text \<open>
  \<^verbatim>\<open>weighted_score\<close> is nested in \<^verbatim>\<open>calculate_scores\<close> (NPBKBO.py, lines 71 to 89) and
  reads \<^verbatim>\<open>league_factor\<close> from the enclosing scope; in app.py (lines 52 to 65) it is a
  top-level function with \<^verbatim>\<open>league_factor\<close> as third parameter
  (\<open>app_weighted_score\<close>). Each dictionary read and each division is a step that may
  raise, in the order Python evaluates them.
\<close>

definition weighted_score :: "real \<Rightarrow> pyval \<Rightarrow> pyval \<Rightarrow> exn + real" where
  "weighted_score league_factor data opp_pitcher =
     exn_bind (get_float opp_pitcher ''era'') (\<lambda>e.
     exn_bind (py_div 4.5 (max 0.01 e)) (\<lambda>q_era.
     (let era_impact = q_era * 0.7 in
     exn_bind (get_float opp_pitcher ''baa'') (\<lambda>b.
     exn_bind (py_div 0.3 (max 0.001 b)) (\<lambda>q_baa.
     (let baa_impact = q_baa * 0.3;
          pitcher_factor = min 2.0 (era_impact + baa_impact) in
     exn_bind (get_float data ''team_batting'') (\<lambda>tb.
     exn_bind (py_div tb (max 0.001 0.270)) (\<lambda>q_bat.
     (let batting_impact = q_bat * 0.5 in
     exn_bind (get_float data ''team_obp'') (\<lambda>ob.
     exn_bind (py_div ob (max 0.001 0.340)) (\<lambda>q_obp.
     (let obp_impact = q_obp * 0.5 in
     exn_bind (get_float data ''time_avg'') (\<lambda>ta.
     exn_bind (get_float data ''base_avg'') (\<lambda>ba.
     exn_bind (get_float data ''allow'') (\<lambda>al.
     (let base_score = ta * 0.5 + ba * 0.3 + al * 0.2 in
     exn_bind (get_float data ''over_rate'') (\<lambda>ovr.
     exn_bind (py_div 1.0 (max 0.1 pitcher_factor)) (\<lambda>q_pit.
       Inr (max 0.1 (base_score * league_factor *
              (0.8 + 0.2 * ovr) * q_pit *
              (0.6 + batting_impact + obp_impact)))))))))))))))))))))"

definition app_weighted_score :: "pyval \<Rightarrow> pyval \<Rightarrow> real \<Rightarrow> exn + real" where
  "app_weighted_score data opp_pitcher league_factor =
     exn_bind (get_float opp_pitcher ''era'') (\<lambda>e.
     exn_bind (py_div 4.5 (max 0.01 e)) (\<lambda>q_era.
     (let era_impact = q_era * 0.7 in
     exn_bind (get_float opp_pitcher ''baa'') (\<lambda>b.
     exn_bind (py_div 0.3 (max 0.001 b)) (\<lambda>q_baa.
     (let baa_impact = q_baa * 0.3;
          pitcher_factor = min 2.0 (era_impact + baa_impact) in
     exn_bind (get_float data ''team_batting'') (\<lambda>tb.
     exn_bind (py_div tb (max 0.001 0.270)) (\<lambda>q_bat.
     (let batting_impact = q_bat * 0.5 in
     exn_bind (get_float data ''team_obp'') (\<lambda>ob.
     exn_bind (py_div ob (max 0.001 0.340)) (\<lambda>q_obp.
     (let obp_impact = q_obp * 0.5 in
     exn_bind (get_float data ''time_avg'') (\<lambda>ta.
     exn_bind (get_float data ''base_avg'') (\<lambda>ba.
     exn_bind (get_float data ''allow'') (\<lambda>al.
     (let base_score = ta * 0.5 + ba * 0.3 + al * 0.2 in
     exn_bind (get_float data ''over_rate'') (\<lambda>ovr.
     exn_bind (py_div 1.0 (max 0.1 pitcher_factor)) (\<lambda>q_pit.
       Inr (max 0.1 (base_score * league_factor *
              (0.8 + 0.2 * ovr) * q_pit *
              (0.6 + batting_impact + obp_impact)))))))))))))))))))))"

text \<open>The body of the \<^verbatim>\<open>try\<close> block of \<^verbatim>\<open>calculate_scores\<close> (NPBKBO.py, lines 67 to 98).\<close>

definition scores_body :: "pyval \<Rightarrow> pyval \<Rightarrow> string \<Rightarrow> bool \<Rightarrow> exn + (real \<times> real)" where
  "scores_body home away league include_effects =
     (let league_factor = (if league = ''NPB'' then 0.95 else 1.05) in
      if include_effects then
        exn_bind (getitem away ''pitcher'') (\<lambda>away_pitcher.
        exn_bind (weighted_score league_factor home away_pitcher) (\<lambda>home_score.
        exn_bind (getitem home ''pitcher'') (\<lambda>home_pitcher.
        exn_bind (weighted_score league_factor away home_pitcher) (\<lambda>away_score.
          Inr (home_score, away_score)))))
      else
        exn_bind (get_float home ''time_avg'') (\<lambda>hta.
        exn_bind (get_float home ''base_avg'') (\<lambda>hba.
        exn_bind (get_float away ''time_avg'') (\<lambda>ata.
        exn_bind (get_float away ''base_avg'') (\<lambda>aba.
          Inr ((hta * 0.6 + hba * 0.4) * league_factor,
               (ata * 0.6 + aba * 0.4) * league_factor))))))"

text \<open>
  \<^verbatim>\<open>calculate_scores\<close> with its handler: \<^verbatim>\<open>except Exception\<close> turns every exception of
  the body into the pair \<^verbatim>\<open>(None, None)\<close>.
\<close>

definition calculate_scores :: "pyval \<Rightarrow> pyval \<Rightarrow> string \<Rightarrow> bool \<Rightarrow> pyval \<times> pyval" where
  "calculate_scores home away league include_effects =
     (case scores_body home away league include_effects of
        Inr (home_score, away_score) \<Rightarrow> (Num home_score, Num away_score)
      | Inl e \<Rightarrow> (NoneVal, NoneVal))"

text \<open>
  The formulas of the design document (section 4.1), written from its words: the pitcher
  factor, the full-mode score and the baseline score for a league multiplier \<open>m\<close>. The
  scores computed by the code above are compared with them.
\<close>

definition spec_pitcher_factor :: "pitcher_stat \<Rightarrow> real" where
  "spec_pitcher_factor p = min 2.0 ((4.5 / max (era p) 0.01) * 0.7 + (0.3 / max (baa p) 0.001) * 0.3)"

definition spec_full_score :: "real \<Rightarrow> team_stat \<Rightarrow> pitcher_stat \<Rightarrow> real" where
  "spec_full_score m t p =
     max 0.1 ((time_avg t * 0.5 + base_avg t * 0.3 + allow t * 0.2) * m *
              (0.8 + 0.2 * over_rate t) * (1 / max (spec_pitcher_factor p) 0.1) *
              (0.6 + 0.5 * (team_batting t / 0.270) + 0.5 * (team_obp t / 0.340)))"

definition spec_baseline_score :: "real \<Rightarrow> team_stat \<Rightarrow> real" where
  "spec_baseline_score m t = (time_avg t * 0.6 + base_avg t * 0.4) * m"

section \<open>Probability engine\<close>

definition NPB_STD_DEV :: real where "NPB_STD_DEV = 2.3"
definition NPB_NB_R :: real where "NPB_NB_R = 9.0"
definition KBO_STD_DEV :: real where "KBO_STD_DEV = 2.8"
definition KBO_NB_R :: real where "KBO_NB_R = 7.5"
definition NUM_SIMULATIONS :: nat where "NUM_SIMULATIONS = 100000"

text \<open>
  The samplers of numpy and scipy are not part of the repository: they are a parameter of
  the engine. A sampler call takes the distribution's parameters, the number of draws and
  the state \<open>'g\<close> of the process-wide generator; it either raises (numpy rejects the
  parameters) or returns the draws, trial \<open>i\<close> at index \<open>i\<close>, with the generator's new
  state. The normal sampler returns floats. The negative binomial and Poisson samplers
  return arrays of 64-bit signed integers (\<^verbatim>\<open>int64\<close>): nothing in the type keeps an element
  from being negative, and adding two such arrays wraps around.
\<close>

type_synonym int64 = "64 word"

record 'g numpy =
  random_normal :: "real \<Rightarrow> real \<Rightarrow> nat \<Rightarrow> 'g \<Rightarrow> (exn + (nat \<Rightarrow> real)) \<times> 'g"
  nbinom_rvs :: "real \<Rightarrow> real \<Rightarrow> nat \<Rightarrow> 'g \<Rightarrow> (exn + (nat \<Rightarrow> int64)) \<times> 'g"
  random_poisson :: "real \<Rightarrow> nat \<Rightarrow> 'g \<Rightarrow> (exn + (nat \<Rightarrow> int64)) \<times> 'g"

text \<open>Computations that may raise and that advance the generator.\<close>

definition rnd_bind ::
  "('g \<Rightarrow> (exn + 'a) \<times> 'g) \<Rightarrow> ('a \<Rightarrow> 'g \<Rightarrow> (exn + 'b) \<times> 'g) \<Rightarrow> 'g \<Rightarrow> (exn + 'b) \<times> 'g" where
  "rnd_bind m f g = (case m g of (Inl e, g') \<Rightarrow> (Inl e, g') | (Inr x, g') \<Rightarrow> f x g')"

definition rnd_return :: "'a \<Rightarrow> 'g \<Rightarrow> (exn + 'a) \<times> 'g" where
  "rnd_return x g = (Inr x, g)"

definition rnd_lift :: "exn + 'a \<Rightarrow> 'g \<Rightarrow> (exn + 'a) \<times> 'g" where
  "rnd_lift r g = (r, g)"

text \<open>The array of \<open>n\<close> draws that a sampler call returns.\<close>

definition np_array :: "(nat \<Rightarrow> 'a) \<Rightarrow> nat \<Rightarrow> 'a list" where
  "np_array f n = map f [0..<n]"

definition np_normal :: "'g numpy \<Rightarrow> real \<Rightarrow> real \<Rightarrow> nat \<Rightarrow> 'g \<Rightarrow> (exn + real list) \<times> 'g" where
  "np_normal np loc scale n =
     rnd_bind (random_normal np loc scale n) (\<lambda>f. rnd_return (np_array f n))"

definition np_nbinom :: "'g numpy \<Rightarrow> real \<Rightarrow> real \<Rightarrow> nat \<Rightarrow> 'g \<Rightarrow> (exn + int64 list) \<times> 'g" where
  "np_nbinom np r p n =
     rnd_bind (nbinom_rvs np r p n) (\<lambda>f. rnd_return (np_array f n))"

definition np_poisson :: "'g numpy \<Rightarrow> real \<Rightarrow> nat \<Rightarrow> 'g \<Rightarrow> (exn + int64 list) \<times> 'g" where
  "np_poisson np lam n =
     rnd_bind (random_poisson np lam n) (\<lambda>f. rnd_return (np_array f n))"

text \<open>
  \<^verbatim>\<open>np.mean(totals > target) * 100\<close>, the percentage of the trials whose total exceeds
  the target, and \<^verbatim>\<open>xs + ys\<close> on two arrays of the same length: of floats, and of
  \<^verbatim>\<open>int64\<close>, where the sum wraps. Comparing an \<^verbatim>\<open>int64\<close> array with the float target
  reads each element as the float of its signed value.
\<close>

definition percent_over :: "real list \<Rightarrow> real \<Rightarrow> real" where
  "percent_over totals target =
     real (length (filter (\<lambda>x. x > target) totals)) / real (length totals) * 100"

definition np_add :: "real list \<Rightarrow> real list \<Rightarrow> real list" where
  "np_add xs ys = map2 (+) xs ys"

definition int64_add :: "int64 list \<Rightarrow> int64 list \<Rightarrow> int64 list" where
  "int64_add xs ys = map2 (+) xs ys"

definition as_floats :: "int64 list \<Rightarrow> real list" where
  "as_floats xs = map (\<lambda>w. real_of_int (sint w)) xs"

record model_result =
  mc_prob :: real
  nb_prob :: real
  poisson_prob :: real
  final_prob :: real

text \<open>\<^verbatim>\<open>generate_nb\<close>, nested in \<^verbatim>\<open>run_probability_models\<close> (NPBKBO.py, lines 117 to 119).\<close>

definition generate_nb :: "'g numpy \<Rightarrow> real \<Rightarrow> real \<Rightarrow> 'g \<Rightarrow> (exn + int64 list) \<times> 'g" where
  "generate_nb np nb_r mean =
     rnd_bind (rnd_lift (py_div nb_r (max 0.1 (nb_r + mean)))) (\<lambda>p.
       np_nbinom np nb_r p NUM_SIMULATIONS)"

text \<open>
  The body of the \<^verbatim>\<open>try\<close> block of \<^verbatim>\<open>run_probability_models\<close> (NPBKBO.py, lines 106 to
  137). The scores arrive as returned by \<^verbatim>\<open>calculate_scores\<close>: floats, or \<^verbatim>\<open>None\<close>, on
  which \<^verbatim>\<open>home_score + away_score\<close> raises TypeError before any draw.
\<close>

definition models_body ::
  "'g numpy \<Rightarrow> pyval \<Rightarrow> pyval \<Rightarrow> real \<Rightarrow> string \<Rightarrow> 'g \<Rightarrow> (exn + model_result) \<times> 'g" where
  "models_body np home_score away_score target league =
     (let std_dev = (if league = ''NPB'' then NPB_STD_DEV else KBO_STD_DEV);
          nb_r = (if league = ''NPB'' then NPB_NB_R else KBO_NB_R)
      in
      rnd_bind (rnd_lift (as_float home_score)) (\<lambda>h.
      rnd_bind (rnd_lift (as_float away_score)) (\<lambda>a.
      rnd_bind (rnd_lift (py_div h (max 0.1 (h + a)))) (\<lambda>h_share.
      rnd_bind (rnd_lift (py_div a (max 0.1 (h + a)))) (\<lambda>a_share.
      rnd_bind (np_normal np h (std_dev * h_share) NUM_SIMULATIONS) (\<lambda>mc_home.
      rnd_bind (np_normal np a (std_dev * a_share) NUM_SIMULATIONS) (\<lambda>mc_away.
      (let mc_scores = np_add mc_home mc_away;
           mc = percent_over mc_scores target in
      rnd_bind (generate_nb np nb_r h) (\<lambda>nb_home.
      rnd_bind (generate_nb np nb_r a) (\<lambda>nb_away.
      (let nb = percent_over (as_floats (int64_add nb_home nb_away)) target in
      rnd_bind (np_poisson np h NUM_SIMULATIONS) (\<lambda>poi_home.
      rnd_bind (np_poisson np a NUM_SIMULATIONS) (\<lambda>poi_away.
      (let poi = percent_over (as_floats (int64_add poi_home poi_away)) target;
           final = (if league = ''NPB''
                    then mc * 0.5 + nb * 0.35 + poi * 0.15
                    else mc * 0.6 + nb * 0.25 + poi * 0.15)
       in rnd_return
            \<lparr>mc_prob = mc, nb_prob = nb, poisson_prob = poi, final_prob = final\<rparr>))))))))))))))"

definition neutral_result :: model_result where
  "neutral_result = \<lparr>mc_prob = 50.0, nb_prob = 50.0, poisson_prob = 50.0, final_prob = 50.0\<rparr>"

text \<open>
  \<^verbatim>\<open>run_probability_models\<close> with its handler (NPBKBO.py, lines 138 to 145):
  \<^verbatim>\<open>except Exception\<close> replaces every exception of the body by the neutral result.
\<close>

definition run_probability_models ::
  "'g numpy \<Rightarrow> pyval \<Rightarrow> pyval \<Rightarrow> real \<Rightarrow> string \<Rightarrow> 'g \<Rightarrow> model_result \<times> 'g" where
  "run_probability_models np home_score away_score target league g =
     (case models_body np home_score away_score target league g of
        (Inr r, g') \<Rightarrow> (r, g')
      | (Inl e, g') \<Rightarrow> (neutral_result, g'))"

text \<open>
  \<^verbatim>\<open>run_models\<close> of the form (app.py, lines 67 to 88): the same computation on the two
  floats that \<^verbatim>\<open>weighted_score\<close> returned, with no \<^verbatim>\<open>try\<close> around it. It returns the
  tuple \<^verbatim>\<open>(mc, nb, poisson, final)\<close>.
\<close>

definition gen_nb :: "'g numpy \<Rightarrow> real \<Rightarrow> real \<Rightarrow> 'g \<Rightarrow> (exn + int64 list) \<times> 'g" where
  "gen_nb np nb_r mean =
     rnd_bind (rnd_lift (py_div nb_r (max 0.1 (nb_r + mean)))) (\<lambda>p.
       np_nbinom np nb_r p NUM_SIMULATIONS)"

definition run_models ::
  "'g numpy \<Rightarrow> real \<Rightarrow> real \<Rightarrow> real \<Rightarrow> string \<Rightarrow> 'g
     \<Rightarrow> (exn + (real \<times> real \<times> real \<times> real)) \<times> 'g" where
  "run_models np h_s a_s target league_key =
     (let std_dev = (if league_key = ''NPB'' then NPB_STD_DEV else KBO_STD_DEV);
          nb_r = (if league_key = ''NPB'' then NPB_NB_R else KBO_NB_R)
      in
      rnd_bind (rnd_lift (py_div h_s (max 0.1 (h_s + a_s)))) (\<lambda>h_share.
      rnd_bind (rnd_lift (py_div a_s (max 0.1 (h_s + a_s)))) (\<lambda>a_share.
      rnd_bind (np_normal np h_s (std_dev * h_share) NUM_SIMULATIONS) (\<lambda>mc_home.
      rnd_bind (np_normal np a_s (std_dev * a_share) NUM_SIMULATIONS) (\<lambda>mc_away.
      (let mc = percent_over (np_add mc_home mc_away) target in
      rnd_bind (gen_nb np nb_r h_s) (\<lambda>nb_home.
      rnd_bind (gen_nb np nb_r a_s) (\<lambda>nb_away.
      (let nb = percent_over (as_floats (int64_add nb_home nb_away)) target in
      rnd_bind (np_poisson np h_s NUM_SIMULATIONS) (\<lambda>poi_home.
      rnd_bind (np_poisson np a_s NUM_SIMULATIONS) (\<lambda>poi_away.
      (let poisson = percent_over (as_floats (int64_add poi_home poi_away)) target;
           final = (if league_key = ''NPB''
                    then mc * 0.5 + nb * 0.35 + poisson * 0.15
                    else mc * 0.6 + nb * 0.25 + poisson * 0.15)
       in rnd_return (mc, nb, poisson, final)))))))))))))"

text \<open>
  The handler of the form's button (app.py, lines 90 to 110): both scores, the models and
  the advice shown. An exception of any step ends the handler.
\<close>

datatype advice = LeanOver | LeanUnder | TossUp

definition analyse ::
  "'g numpy \<Rightarrow> pyval \<Rightarrow> pyval \<Rightarrow> real \<Rightarrow> string \<Rightarrow> 'g
     \<Rightarrow> (exn + (real \<times> real \<times> (real \<times> real \<times> real \<times> real) \<times> advice)) \<times> 'g" where
  "analyse np home away target league_key =
     (let league_factor = (if league_key = ''NPB'' then 0.95 else 1.05) in
      rnd_bind (rnd_lift (getitem away ''pitcher'')) (\<lambda>away_pitcher.
      rnd_bind (rnd_lift (app_weighted_score home away_pitcher league_factor)) (\<lambda>h_s.
      rnd_bind (rnd_lift (getitem home ''pitcher'')) (\<lambda>home_pitcher.
      rnd_bind (rnd_lift (app_weighted_score away home_pitcher league_factor)) (\<lambda>a_s.
      rnd_bind (run_models np h_s a_s target league_key) (\<lambda>(mc, nb, poi, final).
        rnd_return (h_s, a_s, (mc, nb, poi, final),
          (if final \<ge> 55 then LeanOver else if final \<le> 45 then LeanUnder else TossUp))))))))"

section \<open>Recommendation\<close>

text \<open>
  \<^verbatim>\<open>"%.1f" % x\<close> and \<^verbatim>\<open>f"{x:.2f}"\<close> print \<open>x\<close> with a fixed number of decimals, rounded
  to the nearest, a tie to the even neighbour.
\<close>

definition round_half_even :: "real \<Rightarrow> int" where
  "round_half_even x =
     (let f = \<lfloor>x\<rfloor>; d = x - of_int f
      in if d < 1 / 2 then f else if d > 1 / 2 then f + 1 else if even f then f else f + 1)"

definition digit_char :: "nat \<Rightarrow> char" where
  "digit_char d = ''0123456789'' ! (d mod 10)"

fun nat_digits :: "nat \<Rightarrow> string" where
  "nat_digits n = (if n < 10 then [digit_char n] else nat_digits (n div 10) @ [digit_char n])"

fun frac_digits :: "nat \<Rightarrow> nat \<Rightarrow> string" where
  "frac_digits 0 n = []"
| "frac_digits (Suc k) n = frac_digits k (n div 10) @ [digit_char n]"

definition format_f :: "nat \<Rightarrow> real \<Rightarrow> string" where
  "format_f k x =
     (let m = nat \<bar>round_half_even (x * 10 ^ k)\<bar>
      in (if x < 0 then [CHR ''-''] else []) @
         nat_digits (m div 10 ^ k) @ [CHR ''.''] @ frac_digits k (m mod 10 ^ k))"

text \<open>
  The comment that \<^verbatim>\<open>get_star_recommendation\<close> returns is one of eight fixed texts with
  the probability printed inside (NPBKBO.py, lines 152 to 161), or the text of the handler
  (line 163). A text is identified by its strength (the wording: extremely strong, strong,
  favoured, slight) and its side (over, the large total; under, the small total); the
  printed probability is kept as the string that \<^verbatim>\<open>%.1f\<close> produces.
\<close>

datatype side = BigTotal | SmallTotal

datatype wording = ExtremelyStrong | Strong | Favoured | Slight

datatype comment = Recommend wording side string | CannotRecommend

definition get_star_recommendation :: "pyval \<Rightarrow> real \<times> comment" where
  "get_star_recommendation prob =
     (case as_float prob of
        Inl e \<Rightarrow> (0.0, CannotRecommend)
      | Inr p \<Rightarrow>
          if p \<ge> 50 then
            (let strength = p - 50 in
             if strength \<ge> 20 then (5.0, Recommend ExtremelyStrong BigTotal (format_f 1 p))
             else if strength \<ge> 10 then (4.0, Recommend Strong BigTotal (format_f 1 p))
             else if strength \<ge> 5 then (3.5, Recommend Favoured BigTotal (format_f 1 p))
             else (3.0, Recommend Slight BigTotal (format_f 1 p)))
          else
            (let strength = 50 - p in
             if strength \<ge> 20 then (5.0, Recommend ExtremelyStrong SmallTotal (format_f 1 (100 - p)))
             else if strength \<ge> 10 then (4.0, Recommend Strong SmallTotal (format_f 1 (100 - p)))
             else if strength \<ge> 5 then (3.5, Recommend Favoured SmallTotal (format_f 1 (100 - p)))
             else (3.0, Recommend Slight SmallTotal (format_f 1 (100 - p)))))"

section \<open>The console loop\<close>

text \<open>
  \<^verbatim>\<open>f"{x:.2f}"\<close> on a score: \<^verbatim>\<open>None\<close> has no such format (TypeError), a string no format
  code \<^verbatim>\<open>f\<close> (ValueError).
\<close>

fun format_score :: "pyval \<Rightarrow> exn + string" where
  "format_score (Num x) = Inr (format_f 2 x)"
| "format_score NoneVal = Inl TypeError"
| "format_score (Str s) = Inl ValueError"
| "format_score (Dict kvs) = Inl TypeError"

text \<open>
  \<^verbatim>\<open>display_results\<close> (NPBKBO.py, lines 165 to 177) prints the scores, the four
  probabilities and the recommendation; the model returns the printed scores and the
  recommendation, or the exception that formatting a score raises.
\<close>

definition display_results ::
  "pyval \<Rightarrow> pyval \<Rightarrow> real \<Rightarrow> model_result \<Rightarrow> exn + (string \<times> string \<times> real \<times> comment)" where
  "display_results home_score away_score target results =
     exn_bind (format_score home_score) (\<lambda>h_s.
     exn_bind (format_score away_score) (\<lambda>a_s.
       (case get_star_recommendation (Num (final_prob results)) of
          (rating, comment) \<Rightarrow> Inr (h_s, a_s, rating, comment))))"

text \<open>
  One round of the loop of \<^verbatim>\<open>main\<close> after the input (NPBKBO.py, lines 199 to 217): the
  full and the baseline analysis. \<open>engine_calls\<close> records the scores handed to
  \<^verbatim>\<open>run_probability_models\<close>, in call order; \<open>shown\<close> is what the two calls of
  \<^verbatim>\<open>display_results\<close> produced, or the exception that the handler of the loop
  (\<^verbatim>\<open>except Exception\<close>, line 226) reports.
\<close>

record round_report =
  engine_calls :: "(pyval \<times> pyval) list"
  full_results :: model_result
  base_results :: model_result
  shown :: "exn + ((string \<times> string \<times> real \<times> comment) \<times> (string \<times> string \<times> real \<times> comment))"

definition main_round ::
  "'g numpy \<Rightarrow> pyval \<Rightarrow> pyval \<Rightarrow> real \<Rightarrow> string \<Rightarrow> 'g \<Rightarrow> round_report \<times> 'g" where
  "main_round np home away target league g =
     (case calculate_scores home away league True of (full_home, full_away) \<Rightarrow>
      case run_probability_models np full_home full_away target league g of (full_res, g1) \<Rightarrow>
      case calculate_scores home away league False of (base_home, base_away) \<Rightarrow>
      case run_probability_models np base_home base_away target league g1 of (base_res, g2) \<Rightarrow>
        (\<lparr>engine_calls = [(full_home, full_away), (base_home, base_away)],
          full_results = full_res,
          base_results = base_res,
          shown = exn_bind (display_results full_home full_away target full_res) (\<lambda>d1.
                  exn_bind (display_results base_home base_away target base_res) (\<lambda>d2.
                    Inr (d1, d2)))\<rparr>, g2))"

section \<open>A concrete generator\<close>

text \<open>
  For evaluation at concrete inputs: a generator that checks its parameters as numpy and
  scipy do (a negative scale, a success probability outside \<open>(0, 1]\<close>, a negative rate or
  a rate too large for a 64-bit count raise ValueError) and otherwise returns the draws
  given by \<open>normal_draw\<close> (added to the mean) and \<open>count_draw\<close>. Its state counts the
  sampler calls made.
\<close>

definition np_fixed :: "(nat \<Rightarrow> real) \<Rightarrow> (nat \<Rightarrow> int64) \<Rightarrow> nat numpy" where
  "np_fixed normal_draw count_draw =
     \<lparr>random_normal = (\<lambda>loc scale n g.
        if scale < 0 then (Inl ValueError, g) else (Inr (\<lambda>i. loc + normal_draw i), Suc g)),
      nbinom_rvs = (\<lambda>r p n g.
        if r \<le> 0 \<or> p \<le> 0 \<or> p > 1 then (Inl ValueError, g) else (Inr count_draw, Suc g)),
      random_poisson = (\<lambda>lam n g.
        if lam < 0 \<or> lam > 2 ^ 63 then (Inl ValueError, g) else (Inr count_draw, Suc g))\<rparr>"


section \<open>Concrete inputs\<close>

text \<open>
  A team with ordinary statistics, a team whose entries are all zero (every entry is the
  least value its prompt accepts), and a dictionary with no keys.
\<close>

definition sample_pitcher :: pitcher_stat where
  "sample_pitcher = \<lparr>era = 4.0, baa = 0.250\<rparr>"

definition sample_team :: team_stat where
  "sample_team =
     \<lparr>name = ''Home'', time_period = ''night'', time_avg = 4.0, base_avg = 4.2, allow = 3.8,
      over_rate = 0.5, team_batting = 0.270, team_obp = 0.340, pitcher = sample_pitcher\<rparr>"

definition zero_team :: team_stat where
  "zero_team =
     \<lparr>name = ''Zero'', time_period = ''night'', time_avg = 0, base_avg = 0, allow = 0,
      over_rate = 0, team_batting = 0, team_obp = 0, pitcher = \<lparr>era = 0, baa = 0\<rparr>\<rparr>"


section \<open>The factors of the full-mode score\<close>

text \<open>
  The full-mode score is the floor 0.1 applied to a product of three factors: one of the
  side's averages, the league multiplier and the over rate, one of the opposing pitcher,
  one of the side's batting and on-base rates.
\<close>

definition form_term :: "real \<Rightarrow> team_stat \<Rightarrow> real" where
  "form_term m t =
     (time_avg t * 0.5 + base_avg t * 0.3 + allow t * 0.2) * m * (0.8 + 0.2 * over_rate t)"

definition pitcher_term :: "pitcher_stat \<Rightarrow> real" where
  "pitcher_term p = 1 / max (spec_pitcher_factor p) 0.1"

definition offence_term :: "team_stat \<Rightarrow> real" where
  "offence_term t = 0.6 + 0.5 * (team_batting t / 0.270) + 0.5 * (team_obp t / 0.340)"

section \<open>The draws of the engine\<close>

text \<open>
  The draws of one engine call: the three arrays of per-trial totals that
  \<^verbatim>\<open>run_probability_models\<close> and \<^verbatim>\<open>run_models\<close> compare with the target, in the order the
  samplers are called (\<^verbatim>\<open>mc_scores\<close>, the sums of the negative binomial draws, the sums
  of the Poisson draws, the last two as the floats they are compared as). The target
  plays no part in them.
\<close>

definition engine_draws ::
  "'g numpy \<Rightarrow> real \<Rightarrow> real \<Rightarrow> string \<Rightarrow> 'g \<Rightarrow> (exn + (real list \<times> real list \<times> real list)) \<times> 'g" where
  "engine_draws np h a league =
     (let std_dev = (if league = ''NPB'' then NPB_STD_DEV else KBO_STD_DEV);
          nb_r = (if league = ''NPB'' then NPB_NB_R else KBO_NB_R)
      in
      rnd_bind (rnd_lift (py_div h (max 0.1 (h + a)))) (\<lambda>h_share.
      rnd_bind (rnd_lift (py_div a (max 0.1 (h + a)))) (\<lambda>a_share.
      rnd_bind (np_normal np h (std_dev * h_share) NUM_SIMULATIONS) (\<lambda>mc_home.
      rnd_bind (np_normal np a (std_dev * a_share) NUM_SIMULATIONS) (\<lambda>mc_away.
      rnd_bind (generate_nb np nb_r h) (\<lambda>nb_home.
      rnd_bind (generate_nb np nb_r a) (\<lambda>nb_away.
      rnd_bind (np_poisson np h NUM_SIMULATIONS) (\<lambda>poi_home.
      rnd_bind (np_poisson np a NUM_SIMULATIONS) (\<lambda>poi_away.
        rnd_return (np_add mc_home mc_away, as_floats (int64_add nb_home nb_away),
                    as_floats (int64_add poi_home poi_away)))))))))))"

text \<open>The four probabilities computed from the three arrays of totals.\<close>

definition blend_result :: "string \<Rightarrow> real \<Rightarrow> real list \<times> real list \<times> real list \<Rightarrow> model_result" where
  "blend_result league target d =
     (case d of (mc_tot, nb_tot, poi_tot) \<Rightarrow>
       \<lparr>mc_prob = percent_over mc_tot target,
        nb_prob = percent_over nb_tot target,
        poisson_prob = percent_over poi_tot target,
        final_prob =
          (if league = ''NPB''
           then percent_over mc_tot target * 0.5 + percent_over nb_tot target * 0.35
                + percent_over poi_tot target * 0.15
           else percent_over mc_tot target * 0.6 + percent_over nb_tot target * 0.25
                + percent_over poi_tot target * 0.15)\<rparr>)"

text \<open>The three sub-probabilities that \<^verbatim>\<open>run_probability_models\<close> returns at a target.\<close>

definition sub_probs :: "'g numpy \<Rightarrow> real \<Rightarrow> real \<Rightarrow> string \<Rightarrow> 'g \<Rightarrow> real \<Rightarrow> real \<times> real \<times> real" where
  "sub_probs np h a league g target =
     (let r = fst (run_probability_models np (Num h) (Num a) target league g)
      in (mc_prob r, nb_prob r, poisson_prob r))"

text \<open>
  Draws for the concrete generator: counts whose first trial is 0 and whose other trials
  are 4 runs, and normal draws that sit on the mean. A team whose recent average is
  \<open>10 ^ 20\<close>, a value that both input front ends accept.
\<close>

definition scoreless_first :: "nat \<Rightarrow> int64" where
  "scoreless_first i = (if i = 0 then 0 else 4)"

definition no_noise :: "nat \<Rightarrow> real" where
  "no_noise i = 0"

definition huge_team :: team_stat where
  "huge_team = sample_team\<lparr>time_avg := 10 ^ 20\<rparr>"

section \<open>Reading the dictionaries\<close>

lemma exn_bind_Inr: "exn_bind (Inr x) f = f x"
  by (simp add: exn_bind_def)

lemma exn_bind_Inl: "exn_bind (Inl e) f = Inl e"
  by (simp add: exn_bind_def)

lemma get_float_team_dict:
  "get_float (team_dict t) ''time_avg'' = Inr (time_avg t)"
  "get_float (team_dict t) ''base_avg'' = Inr (base_avg t)"
  "get_float (team_dict t) ''allow'' = Inr (allow t)"
  "get_float (team_dict t) ''over_rate'' = Inr (over_rate t)"
  "get_float (team_dict t) ''team_batting'' = Inr (team_batting t)"
  "get_float (team_dict t) ''team_obp'' = Inr (team_obp t)"
  by (simp_all add: get_float_def team_dict_def exn_bind_def)

lemma getitem_team_dict_pitcher:
  "getitem (team_dict t) ''pitcher'' = Inr (pitcher_dict (pitcher t))"
  by (simp add: team_dict_def)

lemma get_float_form_dict:
  "get_float (form_dict t) ''time_avg'' = Inr (time_avg t)"
  "get_float (form_dict t) ''base_avg'' = Inr (base_avg t)"
  "get_float (form_dict t) ''allow'' = Inr (allow t)"
  "get_float (form_dict t) ''over_rate'' = Inr (over_rate t)"
  "get_float (form_dict t) ''team_batting'' = Inr (team_batting t)"
  "get_float (form_dict t) ''team_obp'' = Inr (team_obp t)"
  by (simp_all add: get_float_def form_dict_def exn_bind_def)

lemma getitem_form_dict_pitcher:
  "getitem (form_dict t) ''pitcher'' = Inr (pitcher_dict (pitcher t))"
  by (simp add: form_dict_def)

lemma get_float_pitcher_dict:
  "get_float (pitcher_dict p) ''era'' = Inr (era p)"
  "get_float (pitcher_dict p) ''baa'' = Inr (baa p)"
  by (simp_all add: get_float_def pitcher_dict_def exn_bind_def)

lemma py_div_floor: "0 < c \<Longrightarrow> py_div a (max c x) = Inr (a / max c x)"
  by (simp add: py_div_def max_def)

section \<open>The scores of well-formed dictionaries\<close>

text \<open>
  On a dictionary that holds the six numeric entries of a team, \<^verbatim>\<open>weighted_score\<close> raises
  nothing (every divisor is floored above zero) and returns the full-mode formula.
\<close>

lemma weighted_score_dicts:
  assumes "get_float d ''team_batting'' = Inr (team_batting t)"
    and "get_float d ''team_obp'' = Inr (team_obp t)"
    and "get_float d ''time_avg'' = Inr (time_avg t)"
    and "get_float d ''base_avg'' = Inr (base_avg t)"
    and "get_float d ''allow'' = Inr (allow t)"
    and "get_float d ''over_rate'' = Inr (over_rate t)"
  shows "weighted_score m d (pitcher_dict p) = Inr (spec_full_score m t p)"
proof -
  have d1: "py_div 4.5 (max 0.01 (era p)) = Inr (4.5 / max 0.01 (era p))"
    and d2: "py_div 0.3 (max 0.001 (baa p)) = Inr (0.3 / max 0.001 (baa p))"
    and d3: "py_div (team_batting t) (max 0.001 0.270) = Inr (team_batting t / 0.270)"
    and d4: "py_div (team_obp t) (max 0.001 0.340) = Inr (team_obp t / 0.340)"
    and d5: "\<And>x. py_div 1.0 (max 0.1 x) = Inr (1 / max 0.1 x)"
    by (simp_all add: py_div_floor py_div_def)
  have "weighted_score m d (pitcher_dict p) =
      Inr (max 0.1 ((time_avg t * 0.5 + base_avg t * 0.3 + allow t * 0.2) * m *
        (0.8 + 0.2 * over_rate t) *
        (1 / max 0.1 (min 2.0 (4.5 / max 0.01 (era p) * 0.7 + 0.3 / max 0.001 (baa p) * 0.3))) *
        (0.6 + team_batting t / 0.270 * 0.5 + team_obp t / 0.340 * 0.5)))"
    unfolding weighted_score_def
    by (simp only: assms get_float_pitcher_dict exn_bind_Inr d1 d2 d3 d4 d5 Let_def)
  also have "\<dots> = Inr (spec_full_score m t p)"
    unfolding spec_full_score_def spec_pitcher_factor_def
    by (simp only: max.commute mult.commute)
  finally show ?thesis .
qed

lemma app_weighted_score_eq:
  "app_weighted_score data opp_pitcher league_factor = weighted_score league_factor data opp_pitcher"
  by (simp only: app_weighted_score_def weighted_score_def)

lemma weighted_score_team:
  "weighted_score m (team_dict t) (pitcher_dict p) = Inr (spec_full_score m t p)"
  by (rule weighted_score_dicts) (rule get_float_team_dict)+

lemma weighted_score_form:
  "weighted_score m (form_dict t) (pitcher_dict p) = Inr (spec_full_score m t p)"
  by (rule weighted_score_dicts) (rule get_float_form_dict)+

lemma scores_body_full:
  "scores_body (team_dict h) (team_dict a) league True =
     Inr (spec_full_score (if league = ''NPB'' then 0.95 else 1.05) h (pitcher a),
          spec_full_score (if league = ''NPB'' then 0.95 else 1.05) a (pitcher h))"
  unfolding scores_body_def
  by (simp add: getitem_team_dict_pitcher exn_bind_Inr weighted_score_team Let_def)

lemma scores_body_baseline:
  "scores_body (team_dict h) (team_dict a) league False =
     Inr (spec_baseline_score (if league = ''NPB'' then 0.95 else 1.05) h,
          spec_baseline_score (if league = ''NPB'' then 0.95 else 1.05) a)"
  unfolding scores_body_def spec_baseline_score_def
  by (simp add: get_float_team_dict exn_bind_Inr Let_def)

lemma calculate_scores_full:
  "calculate_scores (team_dict h) (team_dict a) league True =
     (Num (spec_full_score (if league = ''NPB'' then 0.95 else 1.05) h (pitcher a)),
      Num (spec_full_score (if league = ''NPB'' then 0.95 else 1.05) a (pitcher h)))"
  by (simp add: calculate_scores_def scores_body_full)

lemma calculate_scores_baseline:
  "calculate_scores (team_dict h) (team_dict a) league False =
     (Num (spec_baseline_score (if league = ''NPB'' then 0.95 else 1.05) h),
      Num (spec_baseline_score (if league = ''NPB'' then 0.95 else 1.05) a))"
  by (simp add: calculate_scores_def scores_body_baseline)

text \<open>
  Claim C1. For the dictionaries of any two teams, \<^verbatim>\<open>calculate_scores\<close> returns the two
  formulas of section 4.1. In baseline mode each side's score is
  \<open>(time_avg * 0.6 + base_avg * 0.4) * multiplier\<close>, the multiplier 0.95 for NPB and 1.05
  for KBO, and replacing the batting rate, the on-base rate and the pitcher of either team
  leaves both scores unchanged. In full mode each side's score is the floored product of
  section 4.1 with the pitcher factor of the opposing team's pitcher. \<^verbatim>\<open>weighted_score\<close>
  of the form returns the same full-mode formula for the multiplier it is given.
\<close>

theorem calculate_scores_formulas:
  "calculate_scores (team_dict h) (team_dict a) ''NPB'' False =
     (Num ((time_avg h * 0.6 + base_avg h * 0.4) * 0.95),
      Num ((time_avg a * 0.6 + base_avg a * 0.4) * 0.95))
   \<and> calculate_scores (team_dict h) (team_dict a) ''KBO'' False =
     (Num ((time_avg h * 0.6 + base_avg h * 0.4) * 1.05),
      Num ((time_avg a * 0.6 + base_avg a * 0.4) * 1.05))
   \<and> calculate_scores (team_dict (h\<lparr>team_batting := hb, team_obp := ho, pitcher := hp\<rparr>))
        (team_dict (a\<lparr>team_batting := ab, team_obp := ao, pitcher := ap\<rparr>)) league False =
     calculate_scores (team_dict h) (team_dict a) league False
   \<and> calculate_scores (team_dict h) (team_dict a) ''NPB'' True =
     (Num (spec_full_score 0.95 h (pitcher a)), Num (spec_full_score 0.95 a (pitcher h)))
   \<and> calculate_scores (team_dict h) (team_dict a) ''KBO'' True =
     (Num (spec_full_score 1.05 h (pitcher a)), Num (spec_full_score 1.05 a (pitcher h)))
   \<and> app_weighted_score (form_dict h) (pitcher_dict (pitcher a)) m =
     Inr (spec_full_score m h (pitcher a))"
  by (simp add: calculate_scores_full calculate_scores_baseline app_weighted_score_eq
      weighted_score_form spec_baseline_score_def)

section \<open>Positivity of the scores\<close>

lemma spec_full_score_floor: "0.1 \<le> spec_full_score m t p"
  by (simp add: spec_full_score_def)

lemma spec_baseline_nonneg: "valid_team t \<Longrightarrow> 0 < m \<Longrightarrow> 0 \<le> spec_baseline_score m t"
  by (simp add: spec_baseline_score_def valid_team_def)

lemma spec_baseline_pos_iff:
  assumes "valid_team t" "0 < m"
  shows "0 < spec_baseline_score m t \<longleftrightarrow> 0 < time_avg t \<or> 0 < base_avg t"
proof -
  have ta: "0 \<le> time_avg t" and ba: "0 \<le> base_avg t"
    using assms(1) by (simp_all add: valid_team_def)
  have "0 < spec_baseline_score m t \<longleftrightarrow> 0 < time_avg t * 0.6 + base_avg t * 0.4"
    using assms(2) by (simp add: spec_baseline_score_def zero_less_mult_iff)
  also have "\<dots> \<longleftrightarrow> 0 < time_avg t \<or> 0 < base_avg t"
    using ta ba by auto
  finally show ?thesis .
qed

lemma league_factor_pos: "0 < (if league = ''NPB'' then 0.95 else 1.05 :: real)"
  by simp

text \<open>
  Claim C4, as stated, at the team whose entries are all zero: the team is valid, and its
  baseline score is 0 on both sides, not a strictly positive value.
\<close>

theorem baseline_score_zero_counterexample:
  "valid_team zero_team \<and>
   calculate_scores (team_dict zero_team) (team_dict zero_team) ''NPB'' False = (Num 0, Num 0)"
  by (simp add: calculate_scores_baseline spec_baseline_score_def valid_team_def zero_team_def)

text \<open>
  Claim C4, amended. For every valid pair of teams: in full mode both scores are at least
  0.1, for any league, and so is the score that \<^verbatim>\<open>weighted_score\<close> of the form returns;
  in baseline mode both scores are at least 0, and a side's score is strictly positive
  exactly when its \<open>time_avg\<close> or its \<open>base_avg\<close> is.
\<close>

theorem scores_floor:
  assumes "valid_team h" and "valid_team a"
  shows "(\<exists>x y. calculate_scores (team_dict h) (team_dict a) league True = (Num x, Num y)
            \<and> 0.1 \<le> x \<and> 0.1 \<le> y)
       \<and> (\<exists>x. app_weighted_score (form_dict h) (pitcher_dict (pitcher a)) m = Inr x \<and> 0.1 \<le> x)
       \<and> (\<exists>x y. calculate_scores (team_dict h) (team_dict a) league False = (Num x, Num y)
            \<and> 0 \<le> x \<and> 0 \<le> y
            \<and> (0 < x \<longleftrightarrow> 0 < time_avg h \<or> 0 < base_avg h)
            \<and> (0 < y \<longleftrightarrow> 0 < time_avg a \<or> 0 < base_avg a))"
proof -
  let ?m = "if league = ''NPB'' then 0.95 else 1.05 :: real"
  have full: "calculate_scores (team_dict h) (team_dict a) league True =
      (Num (spec_full_score ?m h (pitcher a)), Num (spec_full_score ?m a (pitcher h)))"
    by (rule calculate_scores_full)
  have form: "app_weighted_score (form_dict h) (pitcher_dict (pitcher a)) m =
      Inr (spec_full_score m h (pitcher a))"
    by (simp only: app_weighted_score_eq weighted_score_form)
  have base: "calculate_scores (team_dict h) (team_dict a) league False =
      (Num (spec_baseline_score ?m h), Num (spec_baseline_score ?m a))"
    by (rule calculate_scores_baseline)
  have m: "0 < ?m"
    by (rule league_factor_pos)
  note fl = spec_full_score_floor
  note nn = spec_baseline_nonneg [OF assms(1) m] spec_baseline_nonneg [OF assms(2) m]
  note ps = spec_baseline_pos_iff [OF assms(1) m] spec_baseline_pos_iff [OF assms(2) m]
  from full fl have "\<exists>x y. calculate_scores (team_dict h) (team_dict a) league True
      = (Num x, Num y) \<and> 0.1 \<le> x \<and> 0.1 \<le> y"
    by blast
  moreover from form fl
  have "\<exists>x. app_weighted_score (form_dict h) (pitcher_dict (pitcher a)) m = Inr x \<and> 0.1 \<le> x"
    by blast
  moreover from base nn ps
  have "\<exists>x y. calculate_scores (team_dict h) (team_dict a) league False = (Num x, Num y)
      \<and> 0 \<le> x \<and> 0 \<le> y
      \<and> (0 < x \<longleftrightarrow> 0 < time_avg h \<or> 0 < base_avg h)
      \<and> (0 < y \<longleftrightarrow> 0 < time_avg a \<or> 0 < base_avg a)"
    by blast
  ultimately show ?thesis
    by (intro conjI)
qed

theorem scores_floor_witness:
  "valid_team sample_team \<and> valid_team zero_team
   \<and> (\<exists>x y. calculate_scores (team_dict sample_team) (team_dict zero_team) ''KBO'' True
              = (Num x, Num y) \<and> 0.1 \<le> x \<and> 0.1 \<le> y)
   \<and> (\<exists>x y. calculate_scores (team_dict sample_team) (team_dict zero_team) ''KBO'' False
              = (Num x, Num y) \<and> 0 < x \<and> \<not> 0 < y)"
proof -
  have v: "valid_team sample_team" "valid_team zero_team"
    by (simp_all add: valid_team_def sample_team_def sample_pitcher_def zero_team_def)
  have t: "0 < time_avg sample_team" "\<not> (0 < time_avg zero_team \<or> 0 < base_avg zero_team)"
    by (simp_all add: sample_team_def zero_team_def)
  from scores_floor [OF v, of "''KBO''" "1.05"] v t show ?thesis
    by blast
qed

section \<open>Monotonicity of the full-mode score\<close>

lemma floor_mono_factor:
  fixes c :: real
  assumes "0 \<le> c" "x \<le> y"
  shows "max l (c * x) \<le> max l (c * y)"
  using assms by (intro max.mono order_refl mult_left_mono)

lemma spec_pitcher_factor_antimono:
  assumes "era p \<le> era q" "baa p \<le> baa q"
  shows "spec_pitcher_factor q \<le> spec_pitcher_factor p"
proof -
  have e: "4.5 / max (era q) 0.01 \<le> 4.5 / max (era p) 0.01"
    using assms(1) by (intro divide_left_mono) (auto simp: max_def)
  have b: "0.3 / max (baa q) 0.001 \<le> 0.3 / max (baa p) 0.001"
    using assms(2) by (intro divide_left_mono) (auto simp: max_def)
  show ?thesis
    unfolding spec_pitcher_factor_def
    using e b by (intro min.mono order_refl add_mono mult_right_mono) simp_all
qed

lemma pitcher_term_pos: "0 < pitcher_term p"
  by (simp add: pitcher_term_def max_def)

lemma pitcher_term_mono:
  assumes "era p \<le> era q" "baa p \<le> baa q"
  shows "pitcher_term p \<le> pitcher_term q"
proof -
  have "max (spec_pitcher_factor q) 0.1 \<le> max (spec_pitcher_factor p) 0.1"
    using spec_pitcher_factor_antimono [OF assms] by (intro max.mono) simp_all
  moreover have "0 < max (spec_pitcher_factor q) 0.1 * max (spec_pitcher_factor p) 0.1"
    by (intro mult_pos_pos) (simp_all add: max_def)
  ultimately show ?thesis
    unfolding pitcher_term_def by (intro divide_left_mono) simp_all
qed

lemma spec_full_score_terms:
  "spec_full_score m t p = max 0.1 (form_term m t * pitcher_term p * offence_term t)"
  by (simp only: spec_full_score_def form_term_def pitcher_term_def offence_term_def)

lemma form_term_nonneg: "valid_team t \<Longrightarrow> 0 \<le> m \<Longrightarrow> 0 \<le> form_term m t"
  unfolding form_term_def valid_team_def
  by (intro mult_nonneg_nonneg add_nonneg_nonneg) simp_all

lemma offence_term_nonneg: "valid_team t \<Longrightarrow> 0 \<le> offence_term t"
  unfolding offence_term_def valid_team_def
  by (intro add_nonneg_nonneg mult_nonneg_nonneg divide_nonneg_nonneg) simp_all

lemma offence_term_mono:
  "team_batting t \<le> team_batting u \<Longrightarrow> team_obp t \<le> team_obp u
     \<Longrightarrow> offence_term t \<le> offence_term u"
  unfolding offence_term_def
  by (intro add_mono mult_left_mono divide_right_mono order_refl) simp_all

lemma spec_full_score_mono_offence:
  assumes "valid_team t" "0 \<le> m" "form_term m u = form_term m t"
    "team_batting t \<le> team_batting u" "team_obp t \<le> team_obp u"
  shows "spec_full_score m t p \<le> spec_full_score m u p"
proof -
  have "0 \<le> form_term m t * pitcher_term p"
    using form_term_nonneg [OF assms(1,2)] pitcher_term_pos [of p] by simp
  then show ?thesis
    unfolding spec_full_score_terms assms(3)
    by (intro floor_mono_factor offence_term_mono assms)
qed

lemma spec_full_score_mono_pitcher:
  assumes "valid_team t" "0 \<le> m" "era p \<le> era q" "baa p \<le> baa q"
  shows "spec_full_score m t p \<le> spec_full_score m t q"
proof -
  have c: "0 \<le> form_term m t * offence_term t"
    using form_term_nonneg [OF assms(1,2)] offence_term_nonneg [OF assms(1)] by simp
  have "spec_full_score m t p = max 0.1 ((form_term m t * offence_term t) * pitcher_term p)"
    unfolding spec_full_score_terms by (simp only: mult.assoc mult.commute mult.left_commute)
  also have "\<dots> \<le> max 0.1 ((form_term m t * offence_term t) * pitcher_term q)"
    by (intro floor_mono_factor c pitcher_term_mono assms)
  also have "\<dots> = spec_full_score m t q"
    unfolding spec_full_score_terms by (simp only: mult.assoc mult.commute mult.left_commute)
  finally show ?thesis .
qed

text \<open>
  Claim C6. For a valid team, a league multiplier that is not negative and \<open>x \<le> y\<close>:
  \<^verbatim>\<open>weighted_score\<close> returns a score at both values and the score at \<open>y\<close> is at least
  the score at \<open>x\<close>, when the value varied is the side's own batting rate, its own
  on-base rate, the opposing pitcher's ERA or the opposing pitcher's BAA, everything else
  held fixed. Raising the opposing ERA or BAA weakly lowers the pitcher factor and weakly
  raises \<open>1 / max(pitcher_factor, 0.1)\<close>. The same holds for \<^verbatim>\<open>weighted_score\<close> of the form.
\<close>

theorem weighted_score_monotone:
  assumes "valid_team t" and "0 \<le> m" and "x \<le> y"
  shows "(\<exists>s s'. weighted_score m (team_dict (t\<lparr>team_batting := x\<rparr>)) (pitcher_dict p) = Inr s
            \<and> weighted_score m (team_dict (t\<lparr>team_batting := y\<rparr>)) (pitcher_dict p) = Inr s'
            \<and> s \<le> s')
       \<and> (\<exists>s s'. weighted_score m (team_dict (t\<lparr>team_obp := x\<rparr>)) (pitcher_dict p) = Inr s
            \<and> weighted_score m (team_dict (t\<lparr>team_obp := y\<rparr>)) (pitcher_dict p) = Inr s'
            \<and> s \<le> s')
       \<and> (\<exists>s s'. weighted_score m (team_dict t) (pitcher_dict (p\<lparr>era := x\<rparr>)) = Inr s
            \<and> weighted_score m (team_dict t) (pitcher_dict (p\<lparr>era := y\<rparr>)) = Inr s'
            \<and> s \<le> s')
       \<and> (\<exists>s s'. weighted_score m (team_dict t) (pitcher_dict (p\<lparr>baa := x\<rparr>)) = Inr s
            \<and> weighted_score m (team_dict t) (pitcher_dict (p\<lparr>baa := y\<rparr>)) = Inr s'
            \<and> s \<le> s')
       \<and> spec_pitcher_factor (p\<lparr>era := y\<rparr>) \<le> spec_pitcher_factor (p\<lparr>era := x\<rparr>)
       \<and> spec_pitcher_factor (p\<lparr>baa := y\<rparr>) \<le> spec_pitcher_factor (p\<lparr>baa := x\<rparr>)
       \<and> 1 / max (spec_pitcher_factor (p\<lparr>era := x\<rparr>)) 0.1
            \<le> 1 / max (spec_pitcher_factor (p\<lparr>era := y\<rparr>)) 0.1
       \<and> 1 / max (spec_pitcher_factor (p\<lparr>baa := x\<rparr>)) 0.1
            \<le> 1 / max (spec_pitcher_factor (p\<lparr>baa := y\<rparr>)) 0.1
       \<and> (\<exists>s s'. app_weighted_score (form_dict (t\<lparr>team_batting := x\<rparr>)) (pitcher_dict p) m = Inr s
            \<and> app_weighted_score (form_dict (t\<lparr>team_batting := y\<rparr>)) (pitcher_dict p) m = Inr s'
            \<and> s \<le> s')
       \<and> (\<exists>s s'. app_weighted_score (form_dict (t\<lparr>team_obp := x\<rparr>)) (pitcher_dict p) m = Inr s
            \<and> app_weighted_score (form_dict (t\<lparr>team_obp := y\<rparr>)) (pitcher_dict p) m = Inr s'
            \<and> s \<le> s')
       \<and> (\<exists>s s'. app_weighted_score (form_dict t) (pitcher_dict (p\<lparr>era := x\<rparr>)) m = Inr s
            \<and> app_weighted_score (form_dict t) (pitcher_dict (p\<lparr>era := y\<rparr>)) m = Inr s'
            \<and> s \<le> s')
       \<and> (\<exists>s s'. app_weighted_score (form_dict t) (pitcher_dict (p\<lparr>baa := x\<rparr>)) m = Inr s
            \<and> app_weighted_score (form_dict t) (pitcher_dict (p\<lparr>baa := y\<rparr>)) m = Inr s'
            \<and> s \<le> s')"
proof -
  have ft: "\<And>f. form_term m (t\<lparr>team_batting := f\<rparr>) = form_term m t"
    "\<And>f. form_term m (t\<lparr>team_obp := f\<rparr>) = form_term m t"
    by (simp_all add: form_term_def)
  have fn: "0 \<le> form_term m t * pitcher_term p"
    using form_term_nonneg [OF assms(1,2)] pitcher_term_pos [of p] by simp
  have bat: "spec_full_score m (t\<lparr>team_batting := x\<rparr>) p
      \<le> spec_full_score m (t\<lparr>team_batting := y\<rparr>) p"
    unfolding spec_full_score_terms ft
    by (intro floor_mono_factor fn) (simp add: offence_term_def assms(3))
  have obp: "spec_full_score m (t\<lparr>team_obp := x\<rparr>) p
      \<le> spec_full_score m (t\<lparr>team_obp := y\<rparr>) p"
    unfolding spec_full_score_terms ft
    by (intro floor_mono_factor fn) (simp add: offence_term_def assms(3))
  have era: "spec_full_score m t (p\<lparr>era := x\<rparr>) \<le> spec_full_score m t (p\<lparr>era := y\<rparr>)"
    by (rule spec_full_score_mono_pitcher [OF assms(1,2)]) (simp_all add: assms(3))
  have baa: "spec_full_score m t (p\<lparr>baa := x\<rparr>) \<le> spec_full_score m t (p\<lparr>baa := y\<rparr>)"
    by (rule spec_full_score_mono_pitcher [OF assms(1,2)]) (simp_all add: assms(3))
  have pf_era: "spec_pitcher_factor (p\<lparr>era := y\<rparr>) \<le> spec_pitcher_factor (p\<lparr>era := x\<rparr>)"
    by (rule spec_pitcher_factor_antimono) (simp_all add: assms(3))
  have pf_baa: "spec_pitcher_factor (p\<lparr>baa := y\<rparr>) \<le> spec_pitcher_factor (p\<lparr>baa := x\<rparr>)"
    by (rule spec_pitcher_factor_antimono) (simp_all add: assms(3))
  have pt_era: "pitcher_term (p\<lparr>era := x\<rparr>) \<le> pitcher_term (p\<lparr>era := y\<rparr>)"
    by (rule pitcher_term_mono) (simp_all add: assms(3))
  have pt_baa: "pitcher_term (p\<lparr>baa := x\<rparr>) \<le> pitcher_term (p\<lparr>baa := y\<rparr>)"
    by (rule pitcher_term_mono) (simp_all add: assms(3))
  show ?thesis
    unfolding app_weighted_score_eq weighted_score_team weighted_score_form
    using bat obp era baa pf_era pf_baa pt_era pt_baa
    unfolding pitcher_term_def by blast
qed

theorem weighted_score_monotone_witness:
  "valid_team sample_team \<and> (0::real) \<le> 1.05 \<and> (0.250::real) \<le> 0.300
   \<and> (\<exists>s s'. weighted_score 1.05 (team_dict sample_team)
                 (pitcher_dict (sample_pitcher\<lparr>baa := 0.250\<rparr>)) = Inr s
            \<and> weighted_score 1.05 (team_dict sample_team)
                 (pitcher_dict (sample_pitcher\<lparr>baa := 0.300\<rparr>)) = Inr s'
            \<and> s \<le> s')"
proof -
  have v: "valid_team sample_team"
    by (simp add: valid_team_def sample_team_def sample_pitcher_def)
  have m: "(0::real) \<le> 1.05" and xy: "(0.250::real) \<le> 0.300"
    by simp_all
  from weighted_score_monotone [OF v m xy, of sample_pitcher] v m xy show ?thesis
    by blast
qed

section \<open>The recommendation\<close>

lemma format_f_70: "format_f (Suc 0) 70 = ''70.0''"
  by (simp add: format_f_def round_half_even_def digit_char_def Let_def)

text \<open>
  Claim C5. For every real \<open>p\<close>: if \<open>p \<ge> 50\<close> (50 included) the recommendation is for the
  large total, with strength \<open>p - 50\<close> and \<open>p\<close> printed; otherwise it is for the small
  total, with strength \<open>50 - p\<close> and \<open>100 - p\<close> printed. The rating is 5.0 from strength
  20, 4.0 from 10, 3.5 from 5 and 3.0 below, so it is one of 3.0, 3.5, 4.0, 5.0.
\<close>

theorem get_star_recommendation_contract:
  "get_star_recommendation (Num p) =
     (let over = (p \<ge> 50);
          strength = (if over then p - 50 else 50 - p);
          printed = (if over then p else 100 - p)
      in (if strength \<ge> 20 then 5.0 else if strength \<ge> 10 then 4.0
          else if strength \<ge> 5 then 3.5 else 3.0,
          Recommend
            (if strength \<ge> 20 then ExtremelyStrong else if strength \<ge> 10 then Strong
             else if strength \<ge> 5 then Favoured else Slight)
            (if over then BigTotal else SmallTotal)
            (format_f 1 printed)))
   \<and> fst (get_star_recommendation (Num p)) \<in> {3.0, 3.5, 4.0, 5.0}"
  by (simp add: get_star_recommendation_def Let_def)

text \<open>
  Claim C7, as stated, at 70.0 and at 30.0: the strength is 20 at both, which the first
  threshold takes, so the rating is 5.0 and not 4.0.
\<close>

theorem recommend_70_counterexample:
  "fst (get_star_recommendation (Num 70.0)) = 5.0
   \<and> fst (get_star_recommendation (Num 70.0)) \<noteq> 4.0
   \<and> fst (get_star_recommendation (Num 30.0)) = 5.0
   \<and> fst (get_star_recommendation (Num 30.0)) \<noteq> 4.0"
  by (simp add: get_star_recommendation_def Let_def)

text \<open>
  Claim C7, amended. At 70.0 the rating is 5.0 with the extremely strong text for the
  large total, printing 70.0; at 30.0 the rating is 5.0 with the extremely strong text
  for the small total, printing 70.0.
\<close>

theorem recommend_70_and_30:
  "get_star_recommendation (Num 70.0) = (5.0, Recommend ExtremelyStrong BigTotal ''70.0'')
   \<and> get_star_recommendation (Num 30.0) = (5.0, Recommend ExtremelyStrong SmallTotal ''70.0'')"
  by (simp add: get_star_recommendation_def Let_def format_f_70)

section \<open>The probability engine\<close>

lemma rnd_bind_lift_Inr: "rnd_bind (rnd_lift (Inr x)) f = f x"
  by (rule ext) (simp add: rnd_bind_def rnd_lift_def)

lemma rnd_bind_lift_Inl: "rnd_bind (rnd_lift (Inl e)) f g = (Inl e, g)"
  by (simp add: rnd_bind_def rnd_lift_def)

lemma rnd_bind_return: "rnd_bind (rnd_return x) f = f x"
  by (rule ext) (simp add: rnd_bind_def rnd_return_def)

lemma rnd_bind_InrE:
  assumes "rnd_bind m f g = (Inr r, g')"
  obtains x g1 where "m g = (Inr x, g1)" and "f x g1 = (Inr r, g')"
  using assms by (auto simp: rnd_bind_def split: prod.splits sum.splits)

lemma rnd_bind_Inr_step: "m g = (Inr x, g1) \<Longrightarrow> rnd_bind m f g = f x g1"
  by (simp add: rnd_bind_def)

lemma rnd_bind_Inl_step: "m g = (Inl e, g1) \<Longrightarrow> rnd_bind m f g = (Inl e, g1)"
  by (simp add: rnd_bind_def)

lemma blend_between:
  fixes mc nb poi :: real
  shows "min mc (min nb poi) \<le> mc * 0.5 + nb * 0.35 + poi * 0.15"
    "mc * 0.5 + nb * 0.35 + poi * 0.15 \<le> max mc (max nb poi)"
    "min mc (min nb poi) \<le> mc * 0.6 + nb * 0.25 + poi * 0.15"
    "mc * 0.6 + nb * 0.25 + poi * 0.15 \<le> max mc (max nb poi)"
  by (simp_all add: min_def max_def)

lemma models_body_blend:
  assumes "models_body np home_score away_score target league g = (Inr r, g')"
  shows "final_prob r =
      (if league = ''NPB'' then mc_prob r * 0.5 + nb_prob r * 0.35 + poisson_prob r * 0.15
       else mc_prob r * 0.6 + nb_prob r * 0.25 + poisson_prob r * 0.15)"
  using assms unfolding models_body_def Let_def
  by (elim rnd_bind_InrE) (auto simp: rnd_return_def)

lemma run_models_blend:
  assumes "run_models np h_s a_s target league g = (Inr (mc, nb, poi, final), g')"
  shows "final =
      (if league = ''NPB'' then mc * 0.5 + nb * 0.35 + poi * 0.15
       else mc * 0.6 + nb * 0.25 + poi * 0.15)"
  using assms unfolding run_models_def Let_def
  by (elim rnd_bind_InrE) (auto simp: rnd_return_def)

lemma run_probability_models_blend:
  "final_prob (fst (run_probability_models np home_score away_score target league g)) =
      (let r = fst (run_probability_models np home_score away_score target league g) in
       if league = ''NPB'' then mc_prob r * 0.5 + nb_prob r * 0.35 + poisson_prob r * 0.15
       else mc_prob r * 0.6 + nb_prob r * 0.25 + poisson_prob r * 0.15)"
proof (cases "models_body np home_score away_score target league g")
  case (Pair res g')
  show ?thesis
  proof (cases res)
    case (Inl e)
    with Pair show ?thesis
      by (simp add: run_probability_models_def neutral_result_def Let_def)
  next
    case (Inr r)
    with Pair models_body_blend [of np home_score away_score target league g r g'] show ?thesis
      by (simp add: run_probability_models_def Let_def)
  qed
qed

lemma np_add_array: "np_add (np_array f n) (np_array g n) = np_array (\<lambda>i. f i + g i) n"
  unfolding np_add_def np_array_def by (induction n) simp_all

lemma length_np_array: "length (np_array f n) = n"
  by (simp add: np_array_def)

lemma percent_over_none:
  assumes "\<forall>x\<in>set xs. x \<le> t"
  shows "percent_over xs t = 0"
proof -
  have "filter (\<lambda>x. x > t) xs = []"
    using assms by (auto simp: filter_empty_conv)
  then show ?thesis by (simp add: percent_over_def)
qed

lemma percent_over_full_iff:
  assumes "xs \<noteq> []"
  shows "percent_over xs t = 100 \<longleftrightarrow> (\<forall>x\<in>set xs. t < x)"
proof -
  have n: "0 < length xs" using assms by simp
  have "percent_over xs t = 100 \<longleftrightarrow> length (filter (\<lambda>x. x > t) xs) = length xs"
    using n by (simp add: percent_over_def field_simps)
  also have "\<dots> \<longleftrightarrow> filter (\<lambda>x. x > t) xs = xs"
    by (metis length_filter_less filter_True nat_neq_iff)
  also have "\<dots> \<longleftrightarrow> (\<forall>x\<in>set xs. t < x)"
    by (simp add: filter_id_conv)
  finally show ?thesis .
qed

lemma upper_bound_exists: "\<exists>T::real. \<forall>x\<in>set xs. x \<le> T"
proof (induction xs)
  case Nil
  show ?case by simp
next
  case (Cons x xs)
  then obtain T where "\<forall>y\<in>set xs. y \<le> T" by blast
  then have "\<forall>y\<in>set (x # xs). y \<le> max T x" by auto
  then show ?case by blast
qed

lemma filter_over_stable:
  "\<exists>e::real. 0 < e \<and> (\<forall>t. 0 \<le> t \<and> t < e \<longrightarrow> filter (\<lambda>x. x > t) xs = filter (\<lambda>x. x > 0) xs)"
proof (induction xs)
  case Nil
  show ?case by (intro exI [of _ 1]) simp
next
  case (Cons x xs)
  then obtain e where e0: "0 < e"
    and e: "\<And>t. 0 \<le> t \<Longrightarrow> t < e \<Longrightarrow> filter (\<lambda>x. x > t) xs = filter (\<lambda>x. x > 0) xs"
    by blast
  define d where "d = (if 0 < x then min e x else e)"
  have d0: "0 < d"
    using e0 by (simp add: d_def)
  have "filter (\<lambda>y. y > t) (x # xs) = filter (\<lambda>y. y > 0) (x # xs)" if t: "0 \<le> t" "t < d" for t
  proof -
    have "t < e"
      using t(2) by (simp add: d_def split: if_splits)
    then have tl: "filter (\<lambda>x. x > t) xs = filter (\<lambda>x. x > 0) xs"
      using e t(1) by blast
    have hd: "t < x \<longleftrightarrow> 0 < x"
      using t by (simp add: d_def split: if_splits)
    show ?thesis
      by (simp only: filter.simps tl hd)
  qed
  with d0 show ?case by blast
qed

lemma percent_over_stable:
  "\<exists>e::real. 0 < e \<and> (\<forall>t. 0 \<le> t \<and> t < e \<longrightarrow> percent_over xs t = percent_over xs 0)"
proof -
  obtain e :: real where e0: "0 < e"
    and e: "\<And>t. 0 \<le> t \<Longrightarrow> t < e \<Longrightarrow> filter (\<lambda>x. x > t) xs = filter (\<lambda>x. x > 0) xs"
    using filter_over_stable [of xs] by blast
  have "percent_over xs t = percent_over xs 0" if "0 \<le> t" "t < e" for t
    unfolding percent_over_def e [OF that] ..
  with e0 show ?thesis by blast
qed

lemma rnd_bind_assoc: "rnd_bind (rnd_bind m f) k = rnd_bind m (\<lambda>x. rnd_bind (f x) k)"
  by (rule ext) (simp add: rnd_bind_def split: prod.splits sum.splits)

lemma models_body_draws:
  "models_body np (Num h) (Num a) target league =
     rnd_bind (engine_draws np h a league) (\<lambda>d. rnd_return (blend_result league target d))"
  unfolding models_body_def engine_draws_def Let_def
  by (simp add: rnd_bind_assoc rnd_bind_return rnd_bind_lift_Inr blend_result_def)

lemma run_models_draws:
  "run_models np h a target league =
     rnd_bind (engine_draws np h a league) (\<lambda>d.
       rnd_return (case blend_result league target d of r \<Rightarrow>
         (mc_prob r, nb_prob r, poisson_prob r, final_prob r)))"
  unfolding run_models_def engine_draws_def Let_def gen_nb_def generate_nb_def
  by (simp add: rnd_bind_assoc rnd_bind_return rnd_bind_lift_Inr blend_result_def)

lemma np_normal_length:
  "np_normal np l s n g = (Inr xs, g') \<Longrightarrow> length xs = n"
  unfolding np_normal_def
  by (erule rnd_bind_InrE) (auto simp: rnd_return_def np_array_def)

lemma np_nbinom_length:
  "np_nbinom np r p n g = (Inr xs, g') \<Longrightarrow> length xs = n"
  unfolding np_nbinom_def
  by (erule rnd_bind_InrE) (auto simp: rnd_return_def np_array_def)

lemma generate_nb_length:
  "generate_nb np r m g = (Inr xs, g') \<Longrightarrow> length xs = NUM_SIMULATIONS"
  unfolding generate_nb_def
  by (erule rnd_bind_InrE) (rule np_nbinom_length)

lemma np_poisson_length:
  "np_poisson np l n g = (Inr xs, g') \<Longrightarrow> length xs = n"
  unfolding np_poisson_def
  by (erule rnd_bind_InrE) (auto simp: rnd_return_def np_array_def)

lemma np_add_length: "length xs = n \<Longrightarrow> length ys = n \<Longrightarrow> length (np_add xs ys) = n"
  by (simp add: np_add_def)

lemma int64_add_length:
  "length xs = n \<Longrightarrow> length ys = n \<Longrightarrow> length (as_floats (int64_add xs ys)) = n"
  by (simp add: int64_add_def as_floats_def)

lemma int64_add_array:
  "as_floats (int64_add (np_array f n) (np_array g n)) =
     np_array (\<lambda>i. real_of_int (sint (f i + g i))) n"
  unfolding int64_add_def as_floats_def np_array_def by (induction n) simp_all

lemma int64_add_wraps:
  "as_floats (int64_add [9223372036854775807] [1]) = [- 9223372036854775808]"
  by (simp add: as_floats_def int64_add_def)

lemma engine_draws_shape:
  assumes "engine_draws np h a league g = (Inr (mc_tot, nb_tot, poi_tot), g')"
  shows "length mc_tot = NUM_SIMULATIONS \<and> length nb_tot = NUM_SIMULATIONS
     \<and> length poi_tot = NUM_SIMULATIONS"
  using assms unfolding engine_draws_def Let_def
  apply (elim rnd_bind_InrE)
  apply (simp add: rnd_return_def)
  apply (elim conjE)
  apply (drule np_normal_length)+
  apply (drule generate_nb_length)+
  apply (drule np_poisson_length)+
  apply (auto simp: np_add_length int64_add_length)
  done

lemma run_probability_models_draws:
  assumes "engine_draws np h a league g = (Inr d, g')"
  shows "run_probability_models np (Num h) (Num a) target league g = (blend_result league target d, g')"
  by (simp add: run_probability_models_def models_body_draws rnd_bind_def assms rnd_return_def)

lemma run_probability_models_failed:
  assumes "engine_draws np h a league g = (Inl e, g')"
  shows "run_probability_models np (Num h) (Num a) target league g = (neutral_result, g')"
  by (simp add: run_probability_models_def models_body_draws rnd_bind_def assms)

lemma run_models_failed:
  assumes "engine_draws np h a league g = (Inl e, g')"
  shows "run_models np h a target league g = (Inl e, g')"
  by (simp add: run_models_draws rnd_bind_def assms)

lemma sub_probs_draws:
  assumes "engine_draws np h a league g = (Inr (mc_tot, nb_tot, poi_tot), g')"
  shows "sub_probs np h a league g t =
    (percent_over mc_tot t, percent_over nb_tot t, percent_over poi_tot t)"
  by (simp add: sub_probs_def run_probability_models_draws [OF assms] blend_result_def)

lemma NUM_SIMULATIONS_pos: "0 < NUM_SIMULATIONS"
  by (simp add: NUM_SIMULATIONS_def)

text \<open>
  Claim C8, amended. When the samplers of an engine call succeed, with the arrays of
  per-trial totals \<open>mc_tot\<close>, \<open>nb_tot\<close> and \<open>poi_tot\<close>: at every target each
  sub-probability is the percentage of trials whose total exceeds the target; all three
  are 0 at every target from some bound on (so they tend to 0 as the target grows); on
  some interval \<open>[0, e)\<close> they equal their values at target 0 (so these are their limits
  as the target falls to 0); and they are all 100 at target 0 exactly when every trial's
  total is strictly positive.
\<close>

theorem sub_probabilities_by_target:
  assumes "engine_draws np h a league g = (Inr (mc_tot, nb_tot, poi_tot), g')"
  shows "(\<forall>t. sub_probs np h a league g t =
            (percent_over mc_tot t, percent_over nb_tot t, percent_over poi_tot t))
       \<and> (\<exists>T. \<forall>t\<ge>T. sub_probs np h a league g t = (0, 0, 0))
       \<and> (\<exists>e>0. \<forall>t. 0 \<le> t \<and> t < e \<longrightarrow> sub_probs np h a league g t = sub_probs np h a league g 0)
       \<and> (sub_probs np h a league g 0 = (100, 100, 100)
            \<longleftrightarrow> (\<forall>x\<in>set (mc_tot @ nb_tot @ poi_tot). 0 < x))"
proof -
  note sp = sub_probs_draws [OF assms]
  from engine_draws_shape [OF assms] NUM_SIMULATIONS_pos
  have ne: "mc_tot \<noteq> []" "nb_tot \<noteq> []" "poi_tot \<noteq> []"
    by auto
  have c1: "\<forall>t. sub_probs np h a league g t =
      (percent_over mc_tot t, percent_over nb_tot t, percent_over poi_tot t)"
    by (intro allI sp)
  have c2: "\<exists>T. \<forall>t\<ge>T. sub_probs np h a league g t = (0, 0, 0)"
  proof -
    obtain T where T: "\<forall>x\<in>set (mc_tot @ nb_tot @ poi_tot). x \<le> T"
      using upper_bound_exists by blast
    have "sub_probs np h a league g t = (0, 0, 0)" if "T \<le> t" for t
    proof -
      have "x \<le> t" if "x \<in> set (mc_tot @ nb_tot @ poi_tot)" for x
        using T \<open>T \<le> t\<close> that by (blast intro: order_trans)
      then have "\<forall>x\<in>set mc_tot. x \<le> t" "\<forall>x\<in>set nb_tot. x \<le> t" "\<forall>x\<in>set poi_tot. x \<le> t"
        by simp_all
      then show ?thesis
        by (simp add: sp percent_over_none)
    qed
    then show ?thesis by blast
  qed
  have c3: "\<exists>e>0. \<forall>t. 0 \<le> t \<and> t < e \<longrightarrow>
      sub_probs np h a league g t = sub_probs np h a league g 0"
  proof -
    obtain e1 :: real where e1: "0 < e1"
      "\<forall>t. 0 \<le> t \<and> t < e1 \<longrightarrow> percent_over mc_tot t = percent_over mc_tot 0"
      using percent_over_stable [of mc_tot] by blast
    obtain e2 :: real where e2: "0 < e2"
      "\<forall>t. 0 \<le> t \<and> t < e2 \<longrightarrow> percent_over nb_tot t = percent_over nb_tot 0"
      using percent_over_stable [of nb_tot] by blast
    obtain e3 :: real where e3: "0 < e3"
      "\<forall>t. 0 \<le> t \<and> t < e3 \<longrightarrow> percent_over poi_tot t = percent_over poi_tot 0"
      using percent_over_stable [of poi_tot] by blast
    have "sub_probs np h a league g t = sub_probs np h a league g 0"
      if t: "0 \<le> t" "t < min e1 (min e2 e3)" for t
    proof -
      from t have "t < e1" "t < e2" "t < e3" by simp_all
      with t(1) e1(2) e2(2) e3(2)
      have "percent_over mc_tot t = percent_over mc_tot 0"
        "percent_over nb_tot t = percent_over nb_tot 0"
        "percent_over poi_tot t = percent_over poi_tot 0"
        by blast+
      then show ?thesis by (simp only: sp)
    qed
    moreover have "0 < min e1 (min e2 e3)"
      using e1(1) e2(1) e3(1) by simp
    ultimately show ?thesis by blast
  qed
  have c4: "sub_probs np h a league g 0 = (100, 100, 100)
      \<longleftrightarrow> (\<forall>x\<in>set (mc_tot @ nb_tot @ poi_tot). 0 < x)"
  proof -
    have "sub_probs np h a league g 0 = (100, 100, 100) \<longleftrightarrow>
        percent_over mc_tot 0 = 100 \<and> percent_over nb_tot 0 = 100 \<and> percent_over poi_tot 0 = 100"
      by (simp only: sp prod.inject)
    also have "\<dots> \<longleftrightarrow> (\<forall>x\<in>set mc_tot. 0 < x) \<and> (\<forall>x\<in>set nb_tot. 0 < x) \<and> (\<forall>x\<in>set poi_tot. 0 < x)"
      by (simp only: percent_over_full_iff [OF ne(1)] percent_over_full_iff [OF ne(2)]
          percent_over_full_iff [OF ne(3)])
    also have "\<dots> \<longleftrightarrow> (\<forall>x\<in>set (mc_tot @ nb_tot @ poi_tot). 0 < x)"
      by (simp only: set_append ball_Un)
    finally show ?thesis .
  qed
  from c1 c2 c3 c4 show ?thesis
    by (intro conjI)
qed

section \<open>Evaluation with the concrete generator\<close>

lemma share_nonneg:
  fixes x d s :: real
  assumes "0 \<le> x" "0 \<le> s"
  shows "\<not> s * (x / max 0.1 d) < 0"
proof -
  have "0 < max 0.1 d" by (simp add: max_def)
  then have "0 \<le> x / max 0.1 d" using assms(1) by simp
  with assms(2) have "0 \<le> s * (x / max 0.1 d)" by (rule mult_nonneg_nonneg)
  then show ?thesis by (simp only: not_less)
qed

lemma nb_p_valid:
  fixes r m :: real
  assumes "1 \<le> r" "0 \<le> m"
  shows "\<not> (r \<le> 0 \<or> r / max 0.1 (r + m) \<le> 0 \<or> r / max 0.1 (r + m) > 1)"
proof -
  have mx: "max 0.1 (r + m) = r + m" using assms by (simp add: max_def)
  have "0 < r / (r + m)" using assms by simp
  moreover have "r / (r + m) \<le> 1" using assms by simp
  ultimately show ?thesis using assms(1) by (simp add: mx)
qed

lemma std_dev_nonneg: "0 \<le> (if league = ''NPB'' then NPB_STD_DEV else KBO_STD_DEV)"
  by (simp add: NPB_STD_DEV_def KBO_STD_DEV_def)

lemma nb_r_ge_1: "1 \<le> (if league = ''NPB'' then NPB_NB_R else KBO_NB_R)"
  by (simp add: NPB_NB_R_def KBO_NB_R_def)

lemma np_normal_fixed:
  "\<not> s < 0 \<Longrightarrow> np_normal (np_fixed nd cd) l s n g = (Inr (np_array (\<lambda>i. l + nd i) n), Suc g)"
  by (simp add: np_normal_def np_fixed_def rnd_bind_def rnd_return_def)

lemma generate_nb_fixed:
  assumes "1 \<le> r" "0 \<le> m"
  shows "generate_nb (np_fixed nd cd) r m g = (Inr (np_array cd NUM_SIMULATIONS), Suc g)"
  using nb_p_valid [OF assms]
  by (simp add: generate_nb_def np_nbinom_def np_fixed_def rnd_bind_def rnd_return_def rnd_lift_def
      py_div_floor)

lemma np_poisson_fixed:
  "0 \<le> l \<Longrightarrow> l \<le> 2 ^ 63 \<Longrightarrow>
     np_poisson (np_fixed nd cd) l n g = (Inr (np_array cd n), Suc g)"
  by (simp add: np_poisson_def np_fixed_def rnd_bind_def rnd_return_def)

lemma np_poisson_fixed_overflow:
  "2 ^ 63 < l \<Longrightarrow> np_poisson (np_fixed nd cd) l n g = (Inl ValueError, g)"
  by (simp add: np_poisson_def np_fixed_def rnd_bind_def rnd_return_def)

lemma engine_draws_fixed:
  assumes "0 \<le> h" "h \<le> 2 ^ 63" "0 \<le> a" "a \<le> 2 ^ 63"
  shows "engine_draws (np_fixed nd cd) h a league g =
     (Inr (np_array (\<lambda>i. (h + nd i) + (a + nd i)) NUM_SIMULATIONS,
           np_array (\<lambda>i. real_of_int (sint (cd i + cd i))) NUM_SIMULATIONS,
           np_array (\<lambda>i. real_of_int (sint (cd i + cd i))) NUM_SIMULATIONS), g + 6)"
proof -
  define sd where "sd = (if league = ''NPB'' then NPB_STD_DEV else KBO_STD_DEV)"
  define r where "r = (if league = ''NPB'' then NPB_NB_R else KBO_NB_R)"
  have sd: "0 \<le> sd" and r: "1 \<le> r"
    unfolding sd_def r_def by (rule std_dev_nonneg, rule nb_r_ge_1)
  have d: "py_div h (max 0.1 (h + a)) = Inr (h / max 0.1 (h + a))"
    "py_div a (max 0.1 (h + a)) = Inr (a / max 0.1 (h + a))"
    by (simp_all add: py_div_floor)
  note n = np_normal_fixed [OF share_nonneg [OF assms(1) sd]]
    np_normal_fixed [OF share_nonneg [OF assms(3) sd]]
    generate_nb_fixed [OF r assms(1)] generate_nb_fixed [OF r assms(3)]
    np_poisson_fixed [OF assms(1,2)] np_poisson_fixed [OF assms(3,4)]
  have "engine_draws (np_fixed nd cd) h a league g =
     (Inr (np_array (\<lambda>i. (h + nd i) + (a + nd i)) NUM_SIMULATIONS,
           np_array (\<lambda>i. real_of_int (sint (cd i + cd i))) NUM_SIMULATIONS,
           np_array (\<lambda>i. real_of_int (sint (cd i + cd i))) NUM_SIMULATIONS),
      Suc (Suc (Suc (Suc (Suc (Suc g))))))"
    unfolding engine_draws_def Let_def sd_def [symmetric] r_def [symmetric]
    by (simp only: rnd_bind_def rnd_lift_def rnd_return_def d n prod.case sum.case np_add_array
        int64_add_array)
  then show ?thesis by simp
qed

lemma engine_draws_fixed_overflow:
  assumes "2 ^ 63 < h" "0 \<le> a"
  shows "engine_draws (np_fixed nd cd) h a league g = (Inl ValueError, g + 4)"
proof -
  define sd where "sd = (if league = ''NPB'' then NPB_STD_DEV else KBO_STD_DEV)"
  define r where "r = (if league = ''NPB'' then NPB_NB_R else KBO_NB_R)"
  have sd: "0 \<le> sd" and r: "1 \<le> r"
    unfolding sd_def r_def by (rule std_dev_nonneg, rule nb_r_ge_1)
  have "(0::real) \<le> 2 ^ 63" by simp
  with assms(1) have h: "0 \<le> h" by linarith
  have d: "py_div h (max 0.1 (h + a)) = Inr (h / max 0.1 (h + a))"
    "py_div a (max 0.1 (h + a)) = Inr (a / max 0.1 (h + a))"
    by (simp_all add: py_div_floor)
  note n = np_normal_fixed [OF share_nonneg [OF h sd]]
    np_normal_fixed [OF share_nonneg [OF assms(2) sd]]
    generate_nb_fixed [OF r h] generate_nb_fixed [OF r assms(2)]
    np_poisson_fixed_overflow [OF assms(1)]
  have "engine_draws (np_fixed nd cd) h a league g = (Inl ValueError, Suc (Suc (Suc (Suc g))))"
    unfolding engine_draws_def Let_def sd_def [symmetric] r_def [symmetric]
    by (simp only: rnd_bind_def rnd_lift_def rnd_return_def d n prod.case sum.case)
  then show ?thesis by simp
qed

lemma np_array_nonempty: "0 < n \<Longrightarrow> np_array f n \<noteq> []"
  by (simp add: np_array_def)

lemma percent_over_array_all:
  assumes "0 < n" "\<And>i. t < f i"
  shows "percent_over (np_array f n) t = 100"
proof -
  have "\<forall>x\<in>set (np_array f n). t < x"
    using assms(2) by (simp add: np_array_def)
  then show ?thesis
    by (simp only: percent_over_full_iff [OF np_array_nonempty [OF assms(1)]])
qed

lemma percent_over_array_first:
  assumes "0 < n" "\<not> t < f 0" "\<And>i. 0 < i \<Longrightarrow> t < f i"
  shows "percent_over (np_array f n) t = real (n - 1) / real n * 100"
proof -
  have split: "np_array f n = f 0 # map f [Suc 0..<n]"
    using assms(1) by (simp add: np_array_def upt_conv_Cons)
  have "filter (\<lambda>x. x > t) (map f [Suc 0..<n]) = map f [Suc 0..<n]"
    using assms(3) by (simp add: filter_id_conv)
  then have "length (filter (\<lambda>x. x > t) (np_array f n)) = n - 1"
    using assms(2) by (simp add: split)
  moreover have "length (np_array f n) = n"
    by (rule length_np_array)
  ultimately show ?thesis
    by (simp only: percent_over_def)
qed

lemma engine_draws_sample:
  "engine_draws (np_fixed no_noise scoreless_first) 4 4 league 0 =
     (Inr (np_array (\<lambda>i. (4 + no_noise i) + (4 + no_noise i)) NUM_SIMULATIONS,
           np_array (\<lambda>i. real_of_int (sint (scoreless_first i + scoreless_first i)))
        NUM_SIMULATIONS,
           np_array (\<lambda>i. real_of_int (sint (scoreless_first i + scoreless_first i)))
        NUM_SIMULATIONS), 6)"
  using engine_draws_fixed [of 4 4 no_noise scoreless_first league 0] by simp

text \<open>
  Claim C8, as stated, at finite positive scores 4 and 4, league NPB and target 0, for
  draws whose first trial is scoreless on both sides: the negative binomial and the
  Poisson sub-probability are 99.999, not 100, since the total 0 of that trial does not
  exceed the target 0.
\<close>

theorem scoreless_trial_counterexample:
  "(0::real) < 4
   \<and> sub_probs (np_fixed no_noise scoreless_first) 4 4 ''NPB'' 0 0 = (100, 99.999, 99.999)"
proof -
  have mc: "percent_over
      (np_array (\<lambda>i. (4 + no_noise i) + (4 + no_noise i)) NUM_SIMULATIONS) 0 = 100"
    by (rule percent_over_array_all [OF NUM_SIMULATIONS_pos]) (simp add: no_noise_def)
  have "percent_over
      (np_array (\<lambda>i. real_of_int (sint (scoreless_first i + scoreless_first i)))
        NUM_SIMULATIONS) 0
      = real (NUM_SIMULATIONS - 1) / real NUM_SIMULATIONS * 100"
    by (rule percent_over_array_first [OF NUM_SIMULATIONS_pos]) (simp_all add: scoreless_first_def)
  also have "\<dots> = 99.999"
    by (simp add: NUM_SIMULATIONS_def)
  finally have cnt: "percent_over
      (np_array (\<lambda>i. real_of_int (sint (scoreless_first i + scoreless_first i)))
        NUM_SIMULATIONS) 0
      = 99.999" .
  show ?thesis
    by (simp only: sub_probs_draws [OF engine_draws_sample] mc cnt) simp
qed

text \<open>The samplers succeed for the draws above, and the sub-probabilities vanish from some target on.\<close>

theorem sub_probabilities_by_target_witness:
  "engine_draws (np_fixed no_noise scoreless_first) 4 4 ''NPB'' 0 =
     (Inr (np_array (\<lambda>i. (4 + no_noise i) + (4 + no_noise i)) NUM_SIMULATIONS,
           np_array (\<lambda>i. real_of_int (sint (scoreless_first i + scoreless_first i)))
        NUM_SIMULATIONS,
           np_array (\<lambda>i. real_of_int (sint (scoreless_first i + scoreless_first i)))
        NUM_SIMULATIONS), 6)
   \<and> (\<exists>T. \<forall>t\<ge>T. sub_probs (np_fixed no_noise scoreless_first) 4 4 ''NPB'' 0 t = (0, 0, 0))"
  using sub_probabilities_by_target [OF engine_draws_sample [of "''NPB''"]]
    engine_draws_sample [of "''NPB''"]
  by (intro conjI) blast+

section \<open>The blend\<close>

text \<open>
  Claim C2. Whatever \<^verbatim>\<open>run_probability_models\<close> returns, its final probability is the
  league blend of its three model probabilities (0.5, 0.35, 0.15 for NPB; 0.6, 0.25, 0.15
  otherwise), the weights of each blend sum to 1, and the final probability lies between
  the least and the greatest of the three. The same holds for every tuple that
  \<^verbatim>\<open>run_models\<close> of the form returns.
\<close>

theorem final_prob_blend:
  "(let r = fst (run_probability_models np home_score away_score target league g) in
      final_prob r =
        (if league = ''NPB'' then 0.5 * mc_prob r + 0.35 * nb_prob r + 0.15 * poisson_prob r
         else 0.6 * mc_prob r + 0.25 * nb_prob r + 0.15 * poisson_prob r)
      \<and> min (mc_prob r) (min (nb_prob r) (poisson_prob r)) \<le> final_prob r
      \<and> final_prob r \<le> max (mc_prob r) (max (nb_prob r) (poisson_prob r)))
   \<and> 0.5 + 0.35 + 0.15 = (1::real) \<and> 0.6 + 0.25 + 0.15 = (1::real)
   \<and> (\<forall>mc nb poi final g'.
        run_models np h a target league g = (Inr (mc, nb, poi, final), g') \<longrightarrow>
          final = (if league = ''NPB'' then 0.5 * mc + 0.35 * nb + 0.15 * poi
                   else 0.6 * mc + 0.25 * nb + 0.15 * poi)
          \<and> min mc (min nb poi) \<le> final \<and> final \<le> max mc (max nb poi))"
proof -
  define r where "r = fst (run_probability_models np home_score away_score target league g)"
  have fp: "final_prob r =
      (if league = ''NPB'' then mc_prob r * 0.5 + nb_prob r * 0.35 + poisson_prob r * 0.15
       else mc_prob r * 0.6 + nb_prob r * 0.25 + poisson_prob r * 0.15)"
    using run_probability_models_blend [of np home_score away_score target league g]
    by (simp only: Let_def r_def)
  have a: "final_prob r =
        (if league = ''NPB'' then 0.5 * mc_prob r + 0.35 * nb_prob r + 0.15 * poisson_prob r
         else 0.6 * mc_prob r + 0.25 * nb_prob r + 0.15 * poisson_prob r)"
    by (simp only: fp mult.commute)
  have b: "min (mc_prob r) (min (nb_prob r) (poisson_prob r)) \<le> final_prob r"
    "final_prob r \<le> max (mc_prob r) (max (nb_prob r) (poisson_prob r))"
    unfolding fp using blend_between [of "mc_prob r" "nb_prob r" "poisson_prob r"]
    by (simp_all only: if_split [where P = "\<lambda>x. _ \<le> x"] if_split [where P = "\<lambda>x. x \<le> _"] simp_thms)
  have c: "final = (if league = ''NPB'' then 0.5 * mc + 0.35 * nb + 0.15 * poi
                   else 0.6 * mc + 0.25 * nb + 0.15 * poi)
          \<and> min mc (min nb poi) \<le> final \<and> final \<le> max mc (max nb poi)"
    if "run_models np h a target league g = (Inr (mc, nb, poi, final), g')" for mc nb poi final g'
  proof -
    have f: "final = (if league = ''NPB'' then mc * 0.5 + nb * 0.35 + poi * 0.15
       else mc * 0.6 + nb * 0.25 + poi * 0.15)"
      by (rule run_models_blend [OF that])
    show ?thesis
      unfolding f using blend_between [of mc nb poi]
      by (simp only: mult.commute if_split [where P = "\<lambda>x. _ \<le> x"]
          if_split [where P = "\<lambda>x. x \<le> _"] if_cancel simp_thms)
  qed
  have d: "0.5 + 0.35 + 0.15 = (1::real)" "0.6 + 0.25 + 0.15 = (1::real)"
    by simp_all
  from a b c d show ?thesis
    unfolding Let_def r_def [symmetric] by blast
qed

lemma run_models_sample:
  "\<exists>mc nb poi final.
     run_models (np_fixed no_noise scoreless_first) 4 4 8 ''NPB'' 0 = (Inr (mc, nb, poi, final), 6)"
  by (simp add: run_models_draws rnd_bind_def engine_draws_sample rnd_return_def)

theorem final_prob_blend_witness:
  "\<exists>mc nb poi final.
     run_models (np_fixed no_noise scoreless_first) 4 4 8 ''NPB'' 0 = (Inr (mc, nb, poi, final), 6)
     \<and> final = 0.5 * mc + 0.35 * nb + 0.15 * poi
     \<and> min mc (min nb poi) \<le> final \<and> final \<le> max mc (max nb poi)"
proof -
  obtain mc nb poi final where r:
    "run_models (np_fixed no_noise scoreless_first) 4 4 8 ''NPB'' 0 = (Inr (mc, nb, poi, final), 6)"
    using run_models_sample by blast
  from final_prob_blend [of "np_fixed no_noise scoreless_first" NoneVal NoneVal 8 "''NPB''" 0 4 4]
  have "\<forall>mc nb poi final g'.
        run_models (np_fixed no_noise scoreless_first) 4 4 8 ''NPB'' 0 = (Inr (mc, nb, poi, final), g') \<longrightarrow>
          final = (if ''NPB'' = ''NPB'' then 0.5 * mc + 0.35 * nb + 0.15 * poi
                   else 0.6 * mc + 0.25 * nb + 0.15 * poi)
          \<and> min mc (min nb poi) \<le> final \<and> final \<le> max mc (max nb poi)"
    by blast
  with r have "final = 0.5 * mc + 0.35 * nb + 0.15 * poi
     \<and> min mc (min nb poi) \<le> final \<and> final \<le> max mc (max nb poi)"
    by simp
  with r show ?thesis by blast
qed

section \<open>Failures of the engine and of the scores\<close>

lemma huge_score: "2 ^ 63 < spec_full_score 1.05 huge_team sample_pitcher"
proof -
  have pf: "spec_pitcher_factor sample_pitcher = 1.1475"
    by (simp add: spec_pitcher_factor_def sample_pitcher_def)
  have "spec_full_score 1.05 huge_team sample_pitcher =
      max 0.1 ((10 ^ 20 * 0.5 + 4.2 * 0.3 + 3.8 * 0.2) * 1.05 * 0.9 * (1 / 1.1475) * 1.6)"
    by (simp add: spec_full_score_def pf huge_team_def sample_team_def)
  also have "\<dots> > 2 ^ 63"
    by simp
  finally show ?thesis .
qed

lemma analyse_form:
  "analyse np (form_dict hm) (form_dict aw) target league_key g =
     rnd_bind (run_models np
         (spec_full_score (if league_key = ''NPB'' then 0.95 else 1.05) hm (pitcher aw))
         (spec_full_score (if league_key = ''NPB'' then 0.95 else 1.05) aw (pitcher hm))
         target league_key)
       (\<lambda>(mc, nb, poi, final).
         rnd_return
           (spec_full_score (if league_key = ''NPB'' then 0.95 else 1.05) hm (pitcher aw),
            spec_full_score (if league_key = ''NPB'' then 0.95 else 1.05) aw (pitcher hm),
            (mc, nb, poi, final),
            (if final \<ge> 55 then LeanOver else if final \<le> 45 then LeanUnder else TossUp))) g"
  unfolding analyse_def Let_def
  by (simp only: getitem_form_dict_pitcher app_weighted_score_eq weighted_score_form
      rnd_bind_lift_Inr)


lemma main_round_full_results:
  "calculate_scores home away league True = (fh, fa) \<Longrightarrow>
   full_results (fst (main_round np home away target league g)) =
     fst (run_probability_models np fh fa target league g)"
  by (simp add: main_round_def split: prod.splits)

lemma run_probability_models_None:
  "run_probability_models np NoneVal NoneVal target league g = (neutral_result, g)"
  by (simp add: run_probability_models_def models_body_def rnd_bind_lift_Inl)

text \<open>
  Claim C3 at a failing input. The home team's recent average is \<open>10 ^ 20\<close>, so its
  full-mode score is above \<open>2 ^ 63\<close> and the Poisson sampler rejects it as a rate. The
  handler of the form's button ends with that ValueError: \<^verbatim>\<open>run_models\<close> has no
  \<^verbatim>\<open>try\<close>. On the same input the console's \<^verbatim>\<open>run_probability_models\<close> returns the
  neutral result.
\<close>

theorem form_engine_propagates:
  "fst (analyse (np_fixed no_noise scoreless_first)
          (form_dict huge_team) (form_dict sample_team) 8 ''KBO'' 0) = Inl ValueError
   \<and> full_results (fst (main_round (np_fixed no_noise scoreless_first)
          (team_dict huge_team) (team_dict sample_team) 8 ''KBO'' 0)) = neutral_result"
proof -
  have p: "pitcher huge_team = sample_pitcher" "pitcher sample_team = sample_pitcher"
    by (simp_all add: huge_team_def sample_team_def)
  have a0: "0 \<le> spec_full_score 1.05 sample_team sample_pitcher"
    using spec_full_score_floor [of "1.05" sample_team sample_pitcher] by simp
  have lf: "(if ''KBO'' = ''NPB'' then 0.95 else 1.05 :: real) = 1.05"
    by simp
  note ov = engine_draws_fixed_overflow [OF huge_score a0, of no_noise scoreless_first "''KBO''" 0]
  have "fst (analyse (np_fixed no_noise scoreless_first)
          (form_dict huge_team) (form_dict sample_team) 8 ''KBO'' 0) = Inl ValueError"
    by (simp only: analyse_form p lf rnd_bind_def run_models_failed [OF ov] prod.case sum.case
        fst_conv)
  moreover have "full_results (fst (main_round (np_fixed no_noise scoreless_first)
          (team_dict huge_team) (team_dict sample_team) 8 ''KBO'' 0)) = neutral_result"
    by (simp only: main_round_full_results [OF calculate_scores_full] p lf
        run_probability_models_failed [OF ov] fst_conv)
  ultimately show ?thesis ..
qed





section \<open>The league string\<close>

text \<open>
  For a league string other than \<^verbatim>\<open>'NPB'\<close> the body of the engine, on two float scores,
  is the sequence of sampler calls with standard deviation 2.8 and dispersion 7.5,
  blended with the weights 0.6, 0.25 and 0.15.
\<close>

lemma models_body_non_NPB:
  assumes "L \<noteq> ''NPB''"
  shows "models_body np (Num x) (Num y) target L =
       rnd_bind (np_normal np x (2.8 * (x / max 0.1 (x + y))) NUM_SIMULATIONS) (\<lambda>mc_home.
       rnd_bind (np_normal np y (2.8 * (y / max 0.1 (x + y))) NUM_SIMULATIONS) (\<lambda>mc_away.
       rnd_bind (np_nbinom np 7.5 (7.5 / max 0.1 (7.5 + x)) NUM_SIMULATIONS) (\<lambda>nb_home.
       rnd_bind (np_nbinom np 7.5 (7.5 / max 0.1 (7.5 + y)) NUM_SIMULATIONS) (\<lambda>nb_away.
       rnd_bind (np_poisson np x NUM_SIMULATIONS) (\<lambda>poi_home.
       rnd_bind (np_poisson np y NUM_SIMULATIONS) (\<lambda>poi_away.
         rnd_return
           \<lparr>mc_prob = percent_over (np_add mc_home mc_away) target,
            nb_prob = percent_over (as_floats (int64_add nb_home nb_away)) target,
            poisson_prob = percent_over (as_floats (int64_add poi_home poi_away)) target,
            final_prob = percent_over (np_add mc_home mc_away) target * 0.6
              + percent_over (as_floats (int64_add nb_home nb_away)) target * 0.25
              + percent_over (as_floats (int64_add poi_home poi_away)) target * 0.15\<rparr>))))))"
proof -
  have d: "py_div x (max 0.1 (x + y)) = Inr (x / max 0.1 (x + y))"
    "py_div y (max 0.1 (x + y)) = Inr (y / max 0.1 (x + y))"
    "\<And>m. py_div KBO_NB_R (max 0.1 (KBO_NB_R + m)) = Inr (KBO_NB_R / max 0.1 (KBO_NB_R + m))"
    by (simp_all add: py_div_floor)
  have c: "KBO_STD_DEV = 2.8" "KBO_NB_R = 7.5"
    by (simp_all only: KBO_STD_DEV_def KBO_NB_R_def)
  have "models_body np (Num x) (Num y) target L =
       rnd_bind (np_normal np x (KBO_STD_DEV * (x / max 0.1 (x + y))) NUM_SIMULATIONS) (\<lambda>mc_home.
       rnd_bind (np_normal np y (KBO_STD_DEV * (y / max 0.1 (x + y))) NUM_SIMULATIONS) (\<lambda>mc_away.
       rnd_bind (np_nbinom np KBO_NB_R (KBO_NB_R / max 0.1 (KBO_NB_R + x)) NUM_SIMULATIONS) (\<lambda>nb_home.
       rnd_bind (np_nbinom np KBO_NB_R (KBO_NB_R / max 0.1 (KBO_NB_R + y)) NUM_SIMULATIONS) (\<lambda>nb_away.
       rnd_bind (np_poisson np x NUM_SIMULATIONS) (\<lambda>poi_home.
       rnd_bind (np_poisson np y NUM_SIMULATIONS) (\<lambda>poi_away.
         rnd_return
           \<lparr>mc_prob = percent_over (np_add mc_home mc_away) target,
            nb_prob = percent_over (as_floats (int64_add nb_home nb_away)) target,
            poisson_prob = percent_over (as_floats (int64_add poi_home poi_away)) target,
            final_prob = percent_over (np_add mc_home mc_away) target * 0.6
              + percent_over (as_floats (int64_add nb_home nb_away)) target * 0.25
              + percent_over (as_floats (int64_add poi_home poi_away)) target * 0.15\<rparr>))))))"
    unfolding models_body_def generate_nb_def Let_def
    by (simp only: assms if_False as_float.simps rnd_bind_lift_Inr d)
  then show ?thesis
    by (simp only: c)
qed

text \<open>
  Claim C10. For two league strings that both differ from \<^verbatim>\<open>'NPB'\<close>, with the other
  arguments, the samplers and the generator state equal, \<^verbatim>\<open>calculate_scores\<close> returns
  the same pair and \<^verbatim>\<open>run_probability_models\<close> the same result and generator state.
  Each such league is treated as KBO: the outputs are those for \<^verbatim>\<open>'KBO'\<close>; the scores
  of two teams carry the multiplier 1.05 in both modes; and on two float scores the
  engine calls the normal sampler with standard deviation 2.8 times the side's share,
  the negative binomial sampler with dispersion \<open>r = 7.5\<close> and \<open>p = 7.5 / max(0.1, 7.5 + mean)\<close>,
  the Poisson sampler with the score as rate, and blends the three percentages with the
  weights 0.6, 0.25 and 0.15, the neutral result replacing any exception.
\<close>

theorem league_only_NPB_distinguished:
  assumes "L1 \<noteq> ''NPB''" and "L2 \<noteq> ''NPB''"
  shows "calculate_scores home away L1 eff = calculate_scores home away L2 eff
       \<and> run_probability_models np home_score away_score target L1 g =
           run_probability_models np home_score away_score target L2 g
       \<and> calculate_scores home away L1 eff = calculate_scores home away ''KBO'' eff
       \<and> run_probability_models np home_score away_score target L1 g =
           run_probability_models np home_score away_score target ''KBO'' g
       \<and> calculate_scores (team_dict h) (team_dict a) L1 False =
           (Num ((time_avg h * 0.6 + base_avg h * 0.4) * 1.05),
            Num ((time_avg a * 0.6 + base_avg a * 0.4) * 1.05))
       \<and> calculate_scores (team_dict h) (team_dict a) L1 True =
           (Num (spec_full_score 1.05 h (pitcher a)), Num (spec_full_score 1.05 a (pitcher h)))
       \<and> engine_draws np x y L1 = engine_draws np x y ''KBO''
       \<and> run_probability_models np (Num x) (Num y) target L1 g =
           (case
              (rnd_bind (np_normal np x (2.8 * (x / max 0.1 (x + y))) NUM_SIMULATIONS) (\<lambda>mc_home.
               rnd_bind (np_normal np y (2.8 * (y / max 0.1 (x + y))) NUM_SIMULATIONS) (\<lambda>mc_away.
               rnd_bind (np_nbinom np 7.5 (7.5 / max 0.1 (7.5 + x)) NUM_SIMULATIONS) (\<lambda>nb_home.
               rnd_bind (np_nbinom np 7.5 (7.5 / max 0.1 (7.5 + y)) NUM_SIMULATIONS) (\<lambda>nb_away.
               rnd_bind (np_poisson np x NUM_SIMULATIONS) (\<lambda>poi_home.
               rnd_bind (np_poisson np y NUM_SIMULATIONS) (\<lambda>poi_away.
                 rnd_return
                   \<lparr>mc_prob = percent_over (np_add mc_home mc_away) target,
                    nb_prob = percent_over (as_floats (int64_add nb_home nb_away)) target,
                    poisson_prob = percent_over (as_floats (int64_add poi_home poi_away)) target,
                    final_prob = percent_over (np_add mc_home mc_away) target * 0.6
                      + percent_over (as_floats (int64_add nb_home nb_away)) target * 0.25
                      + percent_over (as_floats (int64_add poi_home poi_away)) target * 0.15\<rparr>
               ))))))) g
            of (Inr r, g') \<Rightarrow> (r, g') | (Inl e, g') \<Rightarrow> (neutral_result, g'))"
proof -
  have eq: "calculate_scores home away L1 eff = calculate_scores home away L2 eff
       \<and> run_probability_models np home_score away_score target L1 g =
           run_probability_models np home_score away_score target L2 g
       \<and> calculate_scores home away L1 eff = calculate_scores home away ''KBO'' eff
       \<and> run_probability_models np home_score away_score target L1 g =
           run_probability_models np home_score away_score target ''KBO'' g
       \<and> calculate_scores (team_dict h) (team_dict a) L1 False =
           (Num ((time_avg h * 0.6 + base_avg h * 0.4) * 1.05),
            Num ((time_avg a * 0.6 + base_avg a * 0.4) * 1.05))
       \<and> engine_draws np x y L1 = engine_draws np x y ''KBO''"
    using assms
    by (simp add: calculate_scores_def scores_body_def run_probability_models_def models_body_def
        engine_draws_def get_float_team_dict exn_bind_Inr)
  have full: "calculate_scores (team_dict h) (team_dict a) L1 True =
      (Num (spec_full_score 1.05 h (pitcher a)), Num (spec_full_score 1.05 a (pitcher h)))"
    by (simp only: calculate_scores_full assms(1) if_False)
  note body = models_body_non_NPB [OF assms(1), of np x y target]
  have run: "run_probability_models np (Num x) (Num y) target L1 g =
      (case models_body np (Num x) (Num y) target L1 g
       of (Inr r, g') \<Rightarrow> (r, g') | (Inl e, g') \<Rightarrow> (neutral_result, g'))"
    by (rule run_probability_models_def)
  from eq full run [unfolded body] show ?thesis
    by (intro conjI) blast+
qed

theorem league_only_NPB_distinguished_witness:
  "''kbo'' \<noteq> ''NPB'' \<and> ''KBL'' \<noteq> ''NPB''
   \<and> calculate_scores (team_dict sample_team) (team_dict zero_team) ''kbo'' True =
       calculate_scores (team_dict sample_team) (team_dict zero_team) ''KBL'' True
   \<and> run_probability_models (np_fixed no_noise scoreless_first) (Num 4) (Num 4) 8 ''kbo'' 0 =
       run_probability_models (np_fixed no_noise scoreless_first) (Num 4) (Num 4) 8 ''KBO'' 0"
proof -
  have n: "''kbo'' \<noteq> ''NPB''" "''KBL'' \<noteq> ''NPB''"
    by simp_all
  from league_only_NPB_distinguished [OF n,
      where home = "team_dict sample_team" and away = "team_dict zero_team" and eff = True
        and np = "np_fixed no_noise scoreless_first" and home_score = "Num 4"
        and away_score = "Num 4" and target = 8 and g = 0] n
  show ?thesis by blast
qed

end
